theory Spec2Isabelle
  imports Complex_Main
begin

section \<open>JavaScript values as the observer client handles them\<close>

text \<open>
  The client is a React application: every datum it exchanges with the engine server is a
  JavaScript value built by an object literal or by \<^verbatim>\<open>JSON.parse\<close>. An object is an
  association list in insertion order with one entry per key. Numbers are rationals (the
  rounding of doubles is not modelled) together with \<^verbatim>\<open>NaN\<close> and the two infinities
  (\<open>JInfinity True\<close> is the positive one).
\<close>

datatype jsval =
    JUndefined
  | JNull
  | JBool bool
  | JNum rat
  | JNaN
  | JInfinity bool
  | JStr string
  | JArr "jsval list"
  | JObj "(string \<times> jsval) list"

datatype js_error = TypeError | RangeError | InvalidStateError

text \<open>A thrown error ends the statements that follow it.\<close>

definition bind_err :: "js_error + 'a \<Rightarrow> ('a \<Rightarrow> js_error + 'b) \<Rightarrow> js_error + 'b" where
  "bind_err m f = (case m of Inl e \<Rightarrow> Inl e | Inr x \<Rightarrow> f x)"

text \<open>Decimal digits of a natural number, as \<^verbatim>\<open>String(n)\<close> writes an array index.\<close>

definition digit_char :: "nat \<Rightarrow> char" where
  "digit_char d = ''0123456789'' ! d"

fun show_nat :: "nat \<Rightarrow> string" where
  "show_nat n = (if n < 10 then [digit_char n] else show_nat (n div 10) @ [digit_char (n mod 10)])"

declare show_nat.simps [simp del]

text \<open>
  \<^verbatim>\<open>v.key\<close> for a data property: reading from \<^verbatim>\<open>undefined\<close> or
  \<^verbatim>\<open>null\<close> throws a TypeError, an absent property reads as \<^verbatim>\<open>undefined\<close>.
  Arrays and strings have \<^verbatim>\<open>length\<close>. Inherited methods are not values of the model;
  no property name the client reads is one.
\<close>

definition field :: "(string \<times> jsval) list \<Rightarrow> string \<Rightarrow> jsval" where
  "field kvs k = (case map_of kvs k of None \<Rightarrow> JUndefined | Some v \<Rightarrow> v)"

definition elem :: "jsval list \<Rightarrow> nat \<Rightarrow> jsval" where
  "elem xs i = (if i < length xs then xs ! i else JUndefined)"

fun get_prop :: "jsval \<Rightarrow> string \<Rightarrow> js_error + jsval" where
  "get_prop JUndefined k = Inl TypeError"
| "get_prop JNull k = Inl TypeError"
| "get_prop (JObj kvs) k = Inr (field kvs k)"
| "get_prop (JArr xs) k = Inr (if k = ''length'' then JNum (of_nat (length xs)) else JUndefined)"
| "get_prop (JStr s) k = Inr (if k = ''length'' then JNum (of_nat (length s)) else JUndefined)"
| "get_prop v k = Inr JUndefined"

text \<open>\<^verbatim>\<open>v[i]\<close> for an index \<^verbatim>\<open>i\<close> that is a non-negative integer.\<close>

fun get_index :: "jsval \<Rightarrow> nat \<Rightarrow> js_error + jsval" where
  "get_index JUndefined i = Inl TypeError"
| "get_index JNull i = Inl TypeError"
| "get_index (JArr xs) i = Inr (elem xs i)"
| "get_index (JStr s) i = Inr (if i < length s then JStr [s ! i] else JUndefined)"
| "get_index (JObj kvs) i = Inr (field kvs (show_nat i))"
| "get_index v i = Inr JUndefined"

text \<open>\<^verbatim>\<open>ToBoolean\<close>, the test of \<^verbatim>\<open>?:\<close>, \<^verbatim>\<open>&&\<close> and \<^verbatim>\<open>||\<close>.\<close>

fun to_boolean :: "jsval \<Rightarrow> bool" where
  "to_boolean JUndefined = False"
| "to_boolean JNull = False"
| "to_boolean (JBool b) = b"
| "to_boolean (JNum x) = (x \<noteq> 0)"
| "to_boolean JNaN = False"
| "to_boolean (JInfinity b) = True"
| "to_boolean (JStr s) = (s \<noteq> [])"
| "to_boolean (JArr xs) = True"
| "to_boolean (JObj kvs) = True"

text \<open>\<^verbatim>\<open>v == null\<close> holds of \<^verbatim>\<open>null\<close> and \<^verbatim>\<open>undefined\<close> only.\<close>

fun loose_eq_null :: "jsval \<Rightarrow> bool" where
  "loose_eq_null JUndefined = True"
| "loose_eq_null JNull = True"
| "loose_eq_null v = False"

text \<open>
  \<^verbatim>\<open>JSON.stringify\<close>, as the value the receiver parses: a property holding
  \<^verbatim>\<open>undefined\<close> is left out, \<^verbatim>\<open>undefined\<close> in an array and a number that is not
  finite become \<^verbatim>\<open>null\<close>.
\<close>

fun JSON_stringify :: "jsval \<Rightarrow> jsval" where
  "JSON_stringify JNaN = JNull"
| "JSON_stringify (JInfinity b) = JNull"
| "JSON_stringify (JArr xs) =
     JArr (map (\<lambda>x. if x = JUndefined then JNull else JSON_stringify x) xs)"
| "JSON_stringify (JObj kvs) =
     JObj (map (\<lambda>kv. (fst kv, JSON_stringify (snd kv)))
            (filter (\<lambda>kv. snd kv \<noteq> JUndefined) kvs))"
| "JSON_stringify v = v"

section \<open>The WebSocket of the browser\<close>

text \<open>The four values of \<^verbatim>\<open>readyState\<close>.\<close>

definition CONNECTING :: nat where "CONNECTING = 0"
definition OPEN :: nat where "OPEN = 1"
definition CLOSING :: nat where "CLOSING = 2"
definition CLOSED :: nat where "CLOSED = 3"

record websocket =
  readyState :: nat
  sent :: "jsval list"

text \<open>
  \<^verbatim>\<open>ws.send(data)\<close>: an InvalidStateError while the socket is connecting, a transmitted
  frame when it is open, nothing transmitted once it is closing or closed.
\<close>

definition ws_send :: "websocket \<Rightarrow> jsval \<Rightarrow> js_error + websocket" where
  "ws_send ws d =
     (if readyState ws = CONNECTING then Inl InvalidStateError
      else if readyState ws = OPEN then Inr (ws\<lparr>sent := sent ws @ [d]\<rparr>)
      else Inr ws)"

text \<open>
  \<^verbatim>\<open>sendCommand\<close> of the engine view and \<^verbatim>\<open>sendMessage\<close> of the \<^verbatim>\<open>useWebSocket\<close> hook,
  on the socket held by \<^verbatim>\<open>wsRef.current\<close> (\<open>None\<close> for \<^verbatim>\<open>null\<close>).
\<close>

definition sendCommand :: "websocket option \<Rightarrow> jsval \<Rightarrow> js_error + websocket option" where
  "sendCommand wsRef command =
     (case wsRef of
        None \<Rightarrow> Inr None
      | Some ws \<Rightarrow>
          if readyState ws = OPEN
          then (case ws_send ws (JSON_stringify command) of
                  Inl e \<Rightarrow> Inl e
                | Inr ws' \<Rightarrow> Inr (Some ws'))
          else Inr (Some ws))"

definition sendMessage :: "websocket option \<Rightarrow> jsval \<Rightarrow> js_error + websocket option" where
  "sendMessage wsRef message =
     (case wsRef of
        None \<Rightarrow> Inr None
      | Some ws \<Rightarrow>
          if readyState ws = OPEN
          then (case ws_send ws (JSON_stringify message) of
                  Inl e \<Rightarrow> Inl e
                | Inr ws' \<Rightarrow> Inr (Some ws'))
          else Inr (Some ws))"

section \<open>The engine view\<close>

text \<open>
  The state of the \<^verbatim>\<open>OrbitEngine\<close> component: its React state, the sockets that
  \<^verbatim>\<open>connectWebSocket\<close> has created (in order of creation; each carries the same handlers),
  the socket \<^verbatim>\<open>wsRef.current\<close> points to, the clock in ms, the pending
  \<^verbatim>\<open>setTimeout\<close> calls as (time due, callback), and the POST requests issued with
  \<^verbatim>\<open>fetch\<close> as (URL, body).
\<close>

datatype callback = ConnectWebSocket

record engine =
  simulationState :: jsval
  selectedBody :: jsval
  bodyInfo :: jsval
  isConnected :: bool
  sockets :: "websocket list"
  wsRef :: "nat option"
  now :: nat
  timers :: "(nat \<times> callback) list"
  requests :: "(string \<times> jsval) list"

definition initial_simulationState :: "jsval \<Rightarrow> jsval" where
  "initial_simulationState now_iso =
     JObj [(''timestamp'', JNum 0), (''real_timestamp'', now_iso), (''bodies'', JObj []),
           (''missions'', JArr []), (''time_scale'', JNum 1), (''is_playing'', JBool False)]"

definition connectWebSocket :: "engine \<Rightarrow> engine" where
  "connectWebSocket e =
     e\<lparr>sockets := sockets e @ [\<lparr>readyState = CONNECTING, sent = []\<rparr>],
       wsRef := Some (length (sockets e))\<rparr>"

text \<open>The component after its first render and the effect that connects.\<close>

definition mounted :: "jsval \<Rightarrow> engine" where
  "mounted now_iso =
     connectWebSocket
       \<lparr>simulationState = initial_simulationState now_iso, selectedBody = JNull,
        bodyInfo = JNull, isConnected = False, sockets = [], wsRef = None, now = 0,
        timers = [], requests = []\<rparr>"

definition ws_onopen :: "engine \<Rightarrow> engine" where
  "ws_onopen e = e\<lparr>isConnected := True\<rparr>"

text \<open>
  \<^verbatim>\<open>ws.onmessage\<close>, on the outcome of \<^verbatim>\<open>JSON.parse(event.data)\<close> (\<open>None\<close> when it
  throws). Whatever is thrown inside the \<^verbatim>\<open>try\<close> is caught and logged.
\<close>

definition ws_onmessage :: "engine \<Rightarrow> jsval option \<Rightarrow> engine" where
  "ws_onmessage e parsed =
     (case parsed of
        None \<Rightarrow> e
      | Some message \<Rightarrow>
          (case get_prop message ''type'' of
             Inl err \<Rightarrow> e
           | Inr ty \<Rightarrow>
               if ty = JStr ''state_update''
               then (case get_prop message ''data'' of
                       Inl err \<Rightarrow> e | Inr d \<Rightarrow> e\<lparr>simulationState := d\<rparr>)
               else if ty = JStr ''body_info''
               then (case get_prop message ''data'' of
                       Inl err \<Rightarrow> e | Inr d \<Rightarrow> e\<lparr>bodyInfo := d\<rparr>)
               else e))"

text \<open>\<^verbatim>\<open>setTimeout(f, delay)\<close>: the callback is due \<open>delay\<close> ms from now.\<close>

definition setTimeout :: "engine \<Rightarrow> callback \<Rightarrow> nat \<Rightarrow> engine" where
  "setTimeout e f delay = e\<lparr>timers := timers e @ [(now e + delay, f)]\<rparr>"

definition ws_onclose :: "engine \<Rightarrow> engine" where
  "ws_onclose e = setTimeout (e\<lparr>isConnected := False\<rparr>) ConnectWebSocket 3000"

text \<open>\<^verbatim>\<open>sendCommand\<close> on the socket the reference points to.\<close>

definition engine_sendCommand :: "engine \<Rightarrow> jsval \<Rightarrow> js_error + engine" where
  "engine_sendCommand e command =
     (case wsRef e of
        None \<Rightarrow> Inr e
      | Some i \<Rightarrow>
          bind_err (sendCommand (Some (sockets e ! i)) command) (\<lambda>r.
            Inr (case r of None \<Rightarrow> e | Some ws' \<Rightarrow> e\<lparr>sockets := (sockets e)[i := ws']\<rparr>)))"

definition fetch_post :: "engine \<Rightarrow> string \<Rightarrow> jsval \<Rightarrow> engine" where
  "fetch_post e url body = e\<lparr>requests := requests e @ [(url, JSON_stringify body)]\<rparr>"

definition handlePlayPause :: "engine \<Rightarrow> js_error + engine" where
  "handlePlayPause e =
     bind_err (get_prop (simulationState e) ''is_playing'') (\<lambda>playing.
       let action = JStr (if to_boolean playing then ''pause'' else ''play'') in
       bind_err (engine_sendCommand e (JObj [(''type'', JStr ''control''), (''action'', action)]))
         (\<lambda>e1. Inr (fetch_post e1 ''http://localhost:8000/api/control/time''
                       (JObj [(''action'', action)]))))"

definition handleSpeedChange :: "engine \<Rightarrow> jsval \<Rightarrow> js_error + engine" where
  "handleSpeedChange e speed =
     bind_err (engine_sendCommand e
                 (JObj [(''type'', JStr ''control''), (''action'', JStr ''set_speed''),
                        (''speed'', speed)]))
       (\<lambda>e1. Inr (fetch_post e1 ''http://localhost:8000/api/control/time''
                     (JObj [(''action'', JStr ''set_speed''), (''speed'', speed)])))"

text \<open>\<^verbatim>\<open>toLowerCase\<close> on the letters A to Z.\<close>

definition lower_char :: "char \<Rightarrow> char" where
  "lower_char c =
     (if 65 \<le> (of_char c :: nat) \<and> (of_char c :: nat) \<le> 90 then char_of (of_char c + 32 :: nat)
      else c)"

definition toLowerCase :: "string \<Rightarrow> string" where
  "toLowerCase s = map lower_char s"

text \<open>
  \<^verbatim>\<open>handleBodyClick\<close> up to its first \<^verbatim>\<open>await\<close>. Only a string has
  \<^verbatim>\<open>toLowerCase\<close>; on any other argument the call throws before anything is sent.
\<close>

definition handleBodyClick :: "engine \<Rightarrow> jsval \<Rightarrow> js_error + engine" where
  "handleBodyClick e bodyName =
     (case bodyName of
        JStr s \<Rightarrow>
          bind_err (engine_sendCommand (e\<lparr>selectedBody := JStr (toLowerCase s)\<rparr>)
                      (JObj [(''type'', JStr ''focus''), (''body_name'', bodyName)]))
            (\<lambda>e1. Inr (fetch_post e1 ''http://localhost:8000/api/focus''
                          (JObj [(''body_name'', bodyName)])))
      | _ \<Rightarrow> Inl TypeError)"

text \<open>The frames that a handler has put on the wire: those sent by \<open>e'\<close> and not by \<open>e\<close>.\<close>

definition frames_sent :: "engine \<Rightarrow> engine \<Rightarrow> jsval list" where
  "frames_sent e e' =
     concat (map (\<lambda>i. drop (length (sent (sockets e ! i))) (sent (sockets e' ! i)))
               [0 ..< length (sockets e)])"

section \<open>The time controls\<close>

text \<open>
  \<^verbatim>\<open>parseFloat\<close>: leading white space is skipped, then the longest prefix that is a
  decimal literal (sign, digits, fraction, exponent, or \<^verbatim>\<open>Infinity\<close>) is the value;
  without such a prefix the result is \<^verbatim>\<open>NaN\<close>.
\<close>

definition is_space :: "char \<Rightarrow> bool" where
  "is_space c = ((of_char c :: nat) \<in> {9, 10, 11, 12, 13, 32})"

definition is_digit :: "char \<Rightarrow> bool" where
  "is_digit c = (48 \<le> (of_char c :: nat) \<and> (of_char c :: nat) \<le> 57)"

definition digits_value :: "string \<Rightarrow> nat" where
  "digits_value ds = foldl (\<lambda>a c. 10 * a + (of_char c - 48)) 0 ds"

definition pow10 :: "int \<Rightarrow> rat" where
  "pow10 k = (if 0 \<le> k then 10 ^ nat k else 1 / 10 ^ nat (- k))"

definition exponent_part :: "string \<Rightarrow> int" where
  "exponent_part r =
     (case r of
        [] \<Rightarrow> 0
      | c # r1 \<Rightarrow>
          if c = CHR ''e'' \<or> c = CHR ''E''
          then (let neg = (r1 \<noteq> [] \<and> hd r1 = CHR ''-'');
                    r2 = (if r1 \<noteq> [] \<and> (hd r1 = CHR ''-'' \<or> hd r1 = CHR ''+'') then tl r1 else r1);
                    ds = takeWhile is_digit r2
                in if ds = [] then 0
                   else if neg then - int (digits_value ds) else int (digits_value ds))
          else 0)"

definition parseFloat :: "string \<Rightarrow> jsval" where
  "parseFloat s =
     (let t = dropWhile is_space s;
          neg = (t \<noteq> [] \<and> hd t = CHR ''-'');
          u = (if t \<noteq> [] \<and> (hd t = CHR ''-'' \<or> hd t = CHR ''+'') then tl t else t)
      in if take 8 u = ''Infinity'' then JInfinity (\<not> neg)
         else
           (let ip = takeWhile is_digit u;
                r1 = dropWhile is_digit u;
                dot = (r1 \<noteq> [] \<and> hd r1 = CHR ''.'');
                fp = (if dot then takeWhile is_digit (tl r1) else []);
                r2 = (if dot then dropWhile is_digit (tl r1) else r1)
            in if ip = [] \<and> fp = [] then JNaN
               else JNum ((if neg then - 1 else 1)
                          * (of_nat (digits_value (ip @ fp)) / 10 ^ length fp)
                          * pow10 (exponent_part r2))))"

text \<open>The options of the speed selector, as (value, label).\<close>

definition speedOptions :: "(nat \<times> string) list" where
  "speedOptions =
     [(1, ''1x''), (10, ''10x''), (100, ''100x''), (1000, ''1,000x''),
      (10000, ''10,000x''), (100000, ''100,000x''), (1000000, ''1M x'')]"

text \<open>
  Each option is rendered with its numeric value written out as the \<^verbatim>\<open>value\<close>
  attribute; the change event of the selector carries that string of the option chosen,
  and the handler passes \<^verbatim>\<open>parseFloat\<close> of it to \<^verbatim>\<open>onSpeedChange\<close>.
\<close>

definition option_value :: "nat \<times> string \<Rightarrow> string" where
  "option_value opt = show_nat (fst opt)"

definition select_onChange :: "engine \<Rightarrow> string \<Rightarrow> js_error + engine" where
  "select_onChange e target_value = handleSpeedChange e (parseFloat target_value)"

section \<open>Events of the browser\<close>

text \<open>
  What can happen to the mounted view: a socket opens, closes or delivers a message, time
  passes, a timer that is due fires, the user clicks play/pause, chooses a speed option
  or clicks a body. An error thrown by a handler leaves the state as it was.
\<close>

datatype event =
    SocketOpens nat
  | SocketCloses nat
  | SocketMessage nat "jsval option"
  | TimePasses nat
  | TimerFires nat
  | ClickPlayPause
  | ChooseSpeed nat
  | ClickBody jsval

definition set_readyState :: "engine \<Rightarrow> nat \<Rightarrow> nat \<Rightarrow> engine" where
  "set_readyState e i st = e\<lparr>sockets := (sockets e)[i := (sockets e ! i)\<lparr>readyState := st\<rparr>]\<rparr>"

definition run_callback :: "engine \<Rightarrow> callback \<Rightarrow> engine" where
  "run_callback e f = (case f of ConnectWebSocket \<Rightarrow> connectWebSocket e)"

definition or_unchanged :: "engine \<Rightarrow> js_error + engine \<Rightarrow> engine" where
  "or_unchanged e r = (case r of Inl err \<Rightarrow> e | Inr e' \<Rightarrow> e')"

fun fire :: "engine \<Rightarrow> event \<Rightarrow> engine option" where
  "fire e (SocketOpens i) =
     (if i < length (sockets e) \<and> readyState (sockets e ! i) = CONNECTING
      then Some (ws_onopen (set_readyState e i OPEN)) else None)"
| "fire e (SocketCloses i) =
     (if i < length (sockets e) \<and> readyState (sockets e ! i) \<noteq> CLOSED
      then Some (ws_onclose (set_readyState e i CLOSED)) else None)"
| "fire e (SocketMessage i parsed) =
     (if i < length (sockets e) \<and> readyState (sockets e ! i) = OPEN
      then Some (ws_onmessage e parsed) else None)"
| "fire e (TimePasses d) = Some (e\<lparr>now := now e + d\<rparr>)"
| "fire e (TimerFires k) =
     (if k < length (timers e) \<and> fst (timers e ! k) \<le> now e
      then Some (run_callback (e\<lparr>timers := take k (timers e) @ drop (Suc k) (timers e)\<rparr>)
                   (snd (timers e ! k)))
      else None)"
| "fire e ClickPlayPause = Some (or_unchanged e (handlePlayPause e))"
| "fire e (ChooseSpeed k) =
     (if k < length speedOptions
      then Some (or_unchanged e (select_onChange e (option_value (speedOptions ! k))))
      else None)"
| "fire e (ClickBody name) = Some (or_unchanged e (handleBodyClick e name))"

inductive reachable :: "engine \<Rightarrow> bool" where
  start: "reachable (mounted now_iso)"
| event: "reachable e \<Longrightarrow> fire e ev = Some e' \<Longrightarrow> reachable e'"

text \<open>Some socket is not closed yet, or a timer is pending.\<close>

definition reconnect_pending :: "engine \<Rightarrow> bool" where
  "reconnect_pending e =
     (list_ex (\<lambda>ws. readyState ws \<noteq> CLOSED) (sockets e) \<or> timers e \<noteq> [])"

text \<open>The POST requests that a handler has issued.\<close>

definition requests_issued :: "engine \<Rightarrow> engine \<Rightarrow> (string \<times> jsval) list" where
  "requests_issued e e' = drop (length (requests e)) (requests e')"

text \<open>The reference points to a socket that has been created.\<close>

definition wf_ref :: "engine \<Rightarrow> bool" where
  "wf_ref e = (case wsRef e of None \<Rightarrow> True | Some i \<Rightarrow> i < length (sockets e))"

definition socket_open :: "engine \<Rightarrow> bool" where
  "socket_open e =
     (case wsRef e of None \<Rightarrow> False | Some i \<Rightarrow> readyState (sockets e ! i) = OPEN)"

text \<open>The view once its first socket has opened.\<close>

definition connected_engine :: engine where
  "connected_engine =
     ws_onopen (set_readyState (mounted (JStr ''2024-01-01T00:00:00.000Z'')) 0 OPEN)"

text \<open>
  The Command of the interface section, in the words of the specification: a control
  command with \<^verbatim>\<open>kind\<close> and an \<^verbatim>\<open>action\<close> of play, pause or set_speed with a positive
  speed, a focus command with \<^verbatim>\<open>kind\<close> and \<^verbatim>\<open>body\<close>, or a subscription command.
\<close>

definition spec_Command :: "jsval \<Rightarrow> bool" where
  "spec_Command c =
     (let kind = get_prop c ''kind''; action = get_prop c ''action'' in
        (kind = Inr (JStr ''control'')
           \<and> (action = Inr (JStr ''play'') \<or> action = Inr (JStr ''pause'')))
      \<or> (kind = Inr (JStr ''control'') \<and> action = Inr (JStr ''set_speed'')
           \<and> (case get_prop c ''speed'' of Inr (JNum x) \<Rightarrow> 0 < x | _ \<Rightarrow> False))
      \<or> (kind = Inr (JStr ''focus'')
           \<and> (case get_prop c ''body'' of Inr (JStr b) \<Rightarrow> True | _ \<Rightarrow> False))
      \<or> kind = Inr (JStr ''subscribe'') \<or> kind = Inr (JStr ''unsubscribe''))"

section \<open>What the view reads from a state snapshot\<close>

text \<open>
  The props that \<^verbatim>\<open>OrbitEngine\<close> hands to \<^verbatim>\<open>SimulationInfo\<close>, \<^verbatim>\<open>TimeControls\<close> and
  \<^verbatim>\<open>SolarSystem\<close> when it renders.
\<close>

record props =
  info_timestamp :: jsval
  info_realTime :: jsval
  controls_isPlaying :: jsval
  controls_timeScale :: jsval
  system_bodies :: jsval
  system_missions :: jsval

definition render_props :: "engine \<Rightarrow> js_error + props" where
  "render_props e =
     bind_err (get_prop (simulationState e) ''bodies'') (\<lambda>bodies.
     bind_err (get_prop (simulationState e) ''missions'') (\<lambda>missions.
     bind_err (get_prop (simulationState e) ''time_scale'') (\<lambda>time_scale.
     bind_err (get_prop (simulationState e) ''timestamp'') (\<lambda>timestamp.
     bind_err (get_prop (simulationState e) ''real_timestamp'') (\<lambda>real_timestamp.
     bind_err (get_prop (simulationState e) ''is_playing'') (\<lambda>is_playing.
       Inr \<lparr>info_timestamp = timestamp, info_realTime = real_timestamp,
            controls_isPlaying = is_playing, controls_timeScale = time_scale,
            system_bodies = bodies, system_missions = missions\<rparr>))))))"

text \<open>\<^verbatim>\<open>a || b\<close>\<close>

definition js_or :: "jsval \<Rightarrow> jsval \<Rightarrow> jsval" where
  "js_or a b = (if to_boolean a then a else b)"

text \<open>The seconds that \<^verbatim>\<open>SimulationInfo\<close> formats: \<^verbatim>\<open>timestamp || 0\<close>.\<close>

definition SimulationInfo_seconds :: "props \<Rightarrow> jsval" where
  "SimulationInfo_seconds p = js_or (info_timestamp p) (JNum 0)"

text \<open>
  The mission rendering of \<^verbatim>\<open>SolarSystem\<close>: \<^verbatim>\<open>missions.map\<close> yields a spacecraft for
  a mission that is active and has a position, and \<^verbatim>\<open>null\<close> for any other.
\<close>

record spacecraft =
  key :: jsval
  position :: "jsval list"
  trail :: jsval

definition render_mission :: "jsval \<Rightarrow> js_error + spacecraft option" where
  "render_mission mission =
     bind_err (get_prop mission ''status'') (\<lambda>status.
       if status \<noteq> JStr ''active'' then Inr None
       else
         bind_err (get_prop mission ''current_position'') (\<lambda>cp.
           if \<not> to_boolean cp then Inr None
           else
             bind_err (get_index cp 0) (\<lambda>x.
             bind_err (get_index cp 1) (\<lambda>y.
             bind_err (get_index cp 2) (\<lambda>z.
             bind_err (get_prop mission ''id'') (\<lambda>mid.
             bind_err (get_prop mission ''trajectory'') (\<lambda>trajectory.
               Inr (Some \<lparr>key = mid, position = [x, y, z],
                          trail = js_or trajectory (JArr [])\<rparr>))))))))"

fun map_err :: "('a \<Rightarrow> js_error + 'b) \<Rightarrow> 'a list \<Rightarrow> js_error + 'b list" where
  "map_err f [] = Inr []"
| "map_err f (x # xs) =
     bind_err (f x) (\<lambda>y. bind_err (map_err f xs) (\<lambda>ys. Inr (y # ys)))"

definition render_missions :: "jsval \<Rightarrow> js_error + spacecraft option list" where
  "render_missions missions =
     (case missions of JArr ms \<Rightarrow> map_err render_mission ms | _ \<Rightarrow> Inl TypeError)"

text \<open>A snapshot that carries the field names of the interface section.\<close>

definition spec_snapshot :: jsval where
  "spec_snapshot =
     JObj [(''sim_time'', JNum 86400), (''real_time'', JStr ''2026-11-03T09:00:00.000Z''),
           (''time_scale'', JNum 10), (''is_playing'', JBool True), (''bodies'', JObj []),
           (''missions'',
            JArr [JObj [(''id'', JStr ''mission-1''), (''departure'', JStr ''earth''),
                        (''arrival'', JStr ''mars''), (''status'', JStr ''active''),
                        (''progress'', JNum (1 / 2)), (''delta_v'', JNum 6),
                        (''current_position_au'', JArr [JNum 1, JNum 0, JNum 0])]])]"

text \<open>The same snapshot under the names the view reads.\<close>

definition client_snapshot :: jsval where
  "client_snapshot =
     JObj [(''timestamp'', JNum 86400), (''real_timestamp'', JStr ''2026-11-03T09:00:00.000Z''),
           (''time_scale'', JNum 10), (''is_playing'', JBool True), (''bodies'', JObj []),
           (''missions'',
            JArr [JObj [(''id'', JStr ''mission-1''), (''departure'', JStr ''earth''),
                        (''arrival'', JStr ''mars''), (''status'', JStr ''active''),
                        (''progress'', JNum (1 / 2)), (''delta_v'', JNum 6),
                        (''current_position'', JArr [JNum 1, JNum 0, JNum 0])]])]"

definition state_update :: "jsval \<Rightarrow> jsval" where
  "state_update d = JObj [(''type'', JStr ''state_update''), (''data'', d)]"

text \<open>What holds of every state the view can reach.\<close>

definition engine_inv :: "engine \<Rightarrow> bool" where
  "engine_inv e = (wf_ref e \<and> reconnect_pending e)"

text \<open>The frames a handler call has sent, none if it threw.\<close>

definition frames_of :: "engine \<Rightarrow> js_error + engine \<Rightarrow> jsval list" where
  "frames_of e r = (case r of Inl err \<Rightarrow> [] | Inr e' \<Rightarrow> frames_sent e e')"

text \<open>The connected view after its socket has closed.\<close>

definition closed_engine :: engine where
  "closed_engine = ws_onclose (set_readyState connected_engine 0 CLOSED)"

section \<open>The trajectory planner\<close>

text \<open>\<^verbatim>\<open>data[k][i]\<close> and \<^verbatim>\<open>data[k][i][j]\<close>\<close>

definition date_at :: "jsval \<Rightarrow> string \<Rightarrow> nat \<Rightarrow> js_error + jsval" where
  "date_at data k i = bind_err (get_prop data k) (\<lambda>xs. get_index xs i)"

definition cell_at :: "jsval \<Rightarrow> string \<Rightarrow> nat \<Rightarrow> nat \<Rightarrow> js_error + jsval" where
  "cell_at data k i j =
     bind_err (get_prop data k) (\<lambda>rows. bind_err (get_index rows i) (\<lambda>row. get_index row j))"

text \<open>
  The state of \<^verbatim>\<open>PorkchopPlot\<close>: the selected cell, and the points it has passed to
  \<^verbatim>\<open>onSelectPoint\<close>, oldest first.
\<close>

record plot =
  selectedPoint :: "(nat \<times> nat) option"
  selected :: "jsval list"

definition handleCellClick :: "jsval \<Rightarrow> plot \<Rightarrow> nat \<Rightarrow> nat \<Rightarrow> js_error + plot" where
  "handleCellClick data p i j =
     bind_err (date_at data ''departure_dates'' i) (\<lambda>depDate.
     bind_err (date_at data ''arrival_dates'' j) (\<lambda>arrDate.
     bind_err (cell_at data ''c3'' i j) (\<lambda>c3.
     bind_err (cell_at data ''delta_v'' i j) (\<lambda>deltaV.
     bind_err (cell_at data ''time_of_flight'' i j) (\<lambda>tof.
       if loose_eq_null c3 \<or> loose_eq_null deltaV \<or> loose_eq_null tof then Inr p
       else Inr (p\<lparr>selectedPoint := Some (i, j),
                   selected := selected p @
                     [JObj [(''departure_date'', depDate), (''arrival_date'', arrDate),
                            (''c3'', c3), (''delta_v'', deltaV), (''time_of_flight'', tof)]]\<rparr>))))))"

text \<open>A porkchop response with the given axes and grids, rows by departure date.\<close>

definition porkchop_response ::
  "jsval list \<Rightarrow> jsval list \<Rightarrow> jsval list list \<Rightarrow> jsval list list \<Rightarrow> jsval list list \<Rightarrow> jsval"
where
  "porkchop_response dds ads c3 dv tof =
     JObj [(''departure_dates'', JArr dds), (''arrival_dates'', JArr ads),
           (''c3'', JArr (map JArr c3)), (''delta_v'', JArr (map JArr dv)),
           (''time_of_flight'', JArr (map JArr tof)), (''partial'', JBool False)]"

definition empty_plot :: plot where
  "empty_plot = \<lparr>selectedPoint = None, selected = []\<rparr>"

text \<open>An object of one cell whose launch energy is \<^verbatim>\<open>NaN\<close>; no parsed response is such.\<close>

definition nan_grid :: jsval where
  "nan_grid =
     porkchop_response [JStr ''2026-04-01T00:00:00''] [JStr ''2026-10-01T00:00:00'']
       [[JNaN]] [[JNum 6]] [[JNum 183]]"

text \<open>
  The values that \<^verbatim>\<open>JSON.parse\<close>, and so \<^verbatim>\<open>response.json()\<close>, can return: no
  \<^verbatim>\<open>undefined\<close>, no \<^verbatim>\<open>NaN\<close> and no infinity, at any depth. The planner's plot gets its
  data from \<^verbatim>\<open>response.json()\<close> only.
\<close>

fun is_json :: "jsval \<Rightarrow> bool" where
  "is_json JUndefined = False"
| "is_json JNaN = False"
| "is_json (JInfinity b) = False"
| "is_json (JArr xs) = list_all is_json xs"
| "is_json (JObj kvs) = list_all is_json (map snd kvs)"
| "is_json v = True"

text \<open>A parsed grid of two departure dates by three arrival dates with one failed cell.\<close>

definition holed_grid :: jsval where
  "holed_grid =
     porkchop_response [JStr ''2026-04-01T00:00:00'', JStr ''2026-04-02T00:00:00'']
       [JStr ''2026-10-01T00:00:00'', JStr ''2026-10-02T00:00:00'', JStr ''2026-10-03T00:00:00'']
       [[JNum 11, JNum 12, JNum 13], [JNum 21, JNum 22, JNull]]
       [[JNum 5, JNum 6, JNum 7], [JNum 8, JNum 9, JNull]]
       [[JNum 183, JNum 184, JNum 185], [JNum 182, JNum 183, JNull]]"

text \<open>
  The state of \<^verbatim>\<open>TrajectoryPlanner\<close>: the two bodies, the values of the four date inputs,
  and the POST requests issued as (URL, body).
\<close>

record planner =
  departure :: string
  arrival :: string
  departureStart :: string
  departureEnd :: string
  arrivalStart :: string
  arrivalEnd :: string
  isCalculating :: bool
  posted :: "(string \<times> jsval) list"

text \<open>\<^verbatim>\<open>calculatePorkchop\<close> up to its \<^verbatim>\<open>await\<close>.\<close>

definition calculatePorkchop :: "planner \<Rightarrow> planner" where
  "calculatePorkchop p =
     p\<lparr>isCalculating := True,
       posted := posted p @
         [(''http://localhost:8000/api/trajectory/porkchop'',
           JSON_stringify
             (JObj [(''departure'', JStr (departure p)), (''arrival'', JStr (arrival p)),
                    (''departure_start'', JStr (departureStart p @ ''T00:00:00'')),
                    (''departure_end'', JStr (departureEnd p @ ''T00:00:00'')),
                    (''arrival_start'', JStr (arrivalStart p @ ''T00:00:00'')),
                    (''arrival_end'', JStr (arrivalEnd p @ ''T00:00:00''))]))]\<rparr>"

text \<open>
  \<^verbatim>\<open>calculateTransfer\<close> up to its \<^verbatim>\<open>await\<close>; what reading the point throws is caught
  by the \<^verbatim>\<open>try\<close> around the request, and nothing is posted.
\<close>

definition calculateTransfer :: "planner \<Rightarrow> jsval \<Rightarrow> planner" where
  "calculateTransfer p point =
     (case bind_err (get_prop point ''departure_date'') (\<lambda>dd.
           bind_err (get_prop point ''arrival_date'') (\<lambda>ad.
             Inr (JObj [(''departure'', JStr (departure p)), (''arrival'', JStr (arrival p)),
                        (''departure_date'', dd), (''arrival_date'', ad)]))) of
        Inl err \<Rightarrow> p
      | Inr body \<Rightarrow>
          p\<lparr>posted := posted p @
               [(''http://localhost:8000/api/trajectory/calculate'', JSON_stringify body)]\<rparr>)"

text \<open>\<^verbatim>\<open>handleLaunchMission\<close> of the planner, up to its \<^verbatim>\<open>await\<close>.\<close>

definition planner_handleLaunchMission :: "planner \<Rightarrow> jsval \<Rightarrow> planner" where
  "planner_handleLaunchMission p transfer =
     p\<lparr>posted := posted p @
          [(''http://localhost:8000/api/mission/launch'',
            JSON_stringify (JObj [(''transfer_data'', transfer)]))]\<rparr>"

text \<open>The body of the request a handler call has posted last.\<close>

definition last_body :: "planner \<Rightarrow> jsval" where
  "last_body p = (if posted p = [] then JUndefined else snd (last (posted p)))"

text \<open>\<^verbatim>\<open>Object.keys\<close> of an object.\<close>

definition keys :: "jsval \<Rightarrow> string list" where
  "keys v = (case v of JObj kvs \<Rightarrow> map fst kvs | _ \<Rightarrow> [])"

text \<open>
  The calendar date and the date-time of ISO 8601 in the extended format with a year of
  four digits: \<^verbatim>\<open>YYYY-MM-DD\<close>, and \<^verbatim>\<open>YYYY-MM-DDThh:mm:ss\<close> with an optional \<^verbatim>\<open>Z\<close>.
\<close>

definition two_digits :: "string \<Rightarrow> nat \<Rightarrow> nat \<Rightarrow> bool" where
  "two_digits s lo hi =
     (length s = 2 \<and> list_all is_digit s \<and> lo \<le> digits_value s \<and> digits_value s \<le> hi)"

definition iso_date :: "string \<Rightarrow> bool" where
  "iso_date s =
     (length s = 10 \<and> list_all is_digit (take 4 s) \<and> s ! 4 = CHR ''-''
      \<and> two_digits (take 2 (drop 5 s)) 1 12 \<and> s ! 7 = CHR ''-''
      \<and> two_digits (take 2 (drop 8 s)) 1 31)"

definition iso_time :: "string \<Rightarrow> bool" where
  "iso_time s =
     (length s = 8 \<and> two_digits (take 2 s) 0 23 \<and> s ! 2 = CHR '':''
      \<and> two_digits (take 2 (drop 3 s)) 0 59 \<and> s ! 5 = CHR '':''
      \<and> two_digits (take 2 (drop 6 s)) 0 59)"

definition iso_date_time :: "string \<Rightarrow> bool" where
  "iso_date_time s =
     (iso_date (take 10 s) \<and> 19 \<le> length s \<and> s ! 10 = CHR ''T''
      \<and> iso_time (take 8 (drop 11 s)) \<and> (drop 19 s = [] \<or> drop 19 s = ''Z''))"

text \<open>
  The transfer request and the transfer response of the interface section: an object
  that has each of the fields listed there.
\<close>

definition has_fields :: "jsval \<Rightarrow> string list \<Rightarrow> bool" where
  "has_fields v ks =
     (case v of JObj kvs \<Rightarrow> list_all (\<lambda>k. field kvs k \<noteq> JUndefined) ks | _ \<Rightarrow> False)"

definition spec_TransferRequest :: "jsval \<Rightarrow> bool" where
  "spec_TransferRequest v =
     has_fields v [''departure'', ''arrival'', ''departure_date'', ''arrival_date'']"

definition spec_TransferResponse :: "jsval \<Rightarrow> bool" where
  "spec_TransferResponse v =
     has_fields v [''c3'', ''delta_v'', ''time_of_flight'', ''departure_date'',
                   ''arrival_date'', ''trajectory'']"

text \<open>The planner as it opens, its date inputs filled in or cleared.\<close>

definition planner_with :: "string \<Rightarrow> string \<Rightarrow> string \<Rightarrow> string \<Rightarrow> planner" where
  "planner_with ds de as ae =
     \<lparr>departure = ''earth'', arrival = ''mars'', departureStart = ds, departureEnd = de,
      arrivalStart = as, arrivalEnd = ae, isCalculating = False, posted = []\<rparr>"

text \<open>A transfer as the planner holds it once a cell is selected and the response is in.\<close>

definition example_transfer :: jsval where
  "example_transfer =
     JObj [(''c3'', JNum 12), (''delta_v'', JNum 6), (''time_of_flight'', JNum 183),
           (''departure_date'', JStr ''2026-04-01T00:00:00''),
           (''arrival_date'', JStr ''2026-10-01T00:00:00''),
           (''trajectory'', JArr [])]"

section \<open>Dates of the browser\<close>

text \<open>
  A time value is a number of milliseconds since 1970-01-01T00:00:00Z. The functions
  below are the abstract operations by which the language standard defines the methods
  of \<^verbatim>\<open>Date\<close>, under their names there.
\<close>

definition msPerDay :: int where "msPerDay = 86400000"
definition msPerHour :: int where "msPerHour = 3600000"
definition msPerMinute :: int where "msPerMinute = 60000"
definition msPerSecond :: int where "msPerSecond = 1000"

definition Day :: "int \<Rightarrow> int" where
  "Day t = t div msPerDay"

definition TimeWithinDay :: "int \<Rightarrow> int" where
  "TimeWithinDay t = t mod msPerDay"

definition DaysInYear :: "int \<Rightarrow> int" where
  "DaysInYear y =
     (if y mod 4 \<noteq> 0 then 365 else if y mod 100 \<noteq> 0 then 366
      else if y mod 400 \<noteq> 0 then 365 else 366)"

definition DayFromYear :: "int \<Rightarrow> int" where
  "DayFromYear y =
     365 * (y - 1970) + (y - 1969) div 4 - (y - 1901) div 100 + (y - 1601) div 400"

text \<open>
  \<^verbatim>\<open>YearFromTime\<close> is the largest year that starts no later than the time value: found
  by counting up from a year that starts no later than the day.
\<close>

lemma div_succ:
  fixes x k :: int
  assumes "0 < k"
  shows "(x + 1) div k = x div k + (if (x + 1) mod k = 0 then 1 else 0)"
proof (cases "(x + 1) mod k = 0")
  case True
  then obtain q where q: "x + 1 = k * q"
    by (metis mod_eq_0_iff_dvd dvd_def)
  then have x: "x = k * (q - 1) + (k - 1)"
    by (simp add: algebra_simps)
  have "x div k = q - 1"
    unfolding x using assms by (simp add: div_pos_pos_trivial)
  moreover have "(x + 1) div k = q"
    unfolding q using assms by simp
  ultimately show ?thesis
    using True by simp
next
  case False
  have m: "x mod k = (x + 1) mod k - 1"
  proof -
    have "0 \<le> (x + 1) mod k" "(x + 1) mod k < k"
      using assms by simp_all
    with False have r: "0 \<le> (x + 1) mod k - 1" "(x + 1) mod k - 1 < k"
      by simp_all
    have "x = k * ((x + 1) div k) + ((x + 1) mod k - 1)"
      by (simp add: algebra_simps)
    then show ?thesis
      using r by (metis mod_pos_pos_trivial mod_mult_self4 mult.commute)
  qed
  have "x = k * (x div k) + x mod k" "x + 1 = k * ((x + 1) div k) + (x + 1) mod k"
    by simp_all
  with m have "k * (x div k) = k * ((x + 1) div k)"
    by linarith
  with assms have "x div k = (x + 1) div k"
    by simp
  with False show ?thesis
    by simp
qed

lemma mod_shift:
  fixes y :: int
  shows "(y - 1968) mod 4 = y mod 4" "(y - 1900) mod 100 = y mod 100"
    "(y - 1600) mod 400 = y mod 400"
proof -
  have "(y - 1968) mod 4 = (y + 4 * (- 492)) mod 4"
    by simp
  also have "\<dots> = y mod 4"
    by (rule mod_mult_self2)
  finally show "(y - 1968) mod 4 = y mod 4" .
  have "(y - 1900) mod 100 = (y + 100 * (- 19)) mod 100"
    by simp
  also have "\<dots> = y mod 100"
    by (rule mod_mult_self2)
  finally show "(y - 1900) mod 100 = y mod 100" .
  have "(y - 1600) mod 400 = (y + 400 * (- 4)) mod 400"
    by simp
  also have "\<dots> = y mod 400"
    by (rule mod_mult_self2)
  finally show "(y - 1600) mod 400 = y mod 400" .
qed

lemma century_mods:
  fixes y :: int
  shows "y mod 100 = 0 \<Longrightarrow> y mod 4 = 0" "y mod 400 = 0 \<Longrightarrow> y mod 100 = 0"
proof -
  have "(4::int) dvd 100" "(100::int) dvd 400"
    by simp_all
  then show "y mod 100 = 0 \<Longrightarrow> y mod 4 = 0" "y mod 400 = 0 \<Longrightarrow> y mod 100 = 0"
    by (meson dvd_trans mod_eq_0_iff_dvd)+
qed

lemma DaysInYear_leap:
  "DaysInYear y
     = 365 + (if y mod 4 = 0 then 1 else 0) - (if y mod 100 = 0 then 1 else 0)
       + (if y mod 400 = 0 then 1 else 0)"
proof (cases "y mod 4 = 0")
  case True
  show ?thesis
  proof (cases "y mod 100 = 0")
    case False
    with True century_mods(2) [of y] show ?thesis
      by (cases "y mod 400 = 0") (simp_all add: DaysInYear_def)
  next
    case True
    then show ?thesis
      using century_mods(1) [of y] by (simp add: DaysInYear_def)
  qed
next
  case False
  with century_mods [of y] have "y mod 100 \<noteq> 0" "y mod 400 \<noteq> 0"
    by auto
  with False show ?thesis
    by (simp add: DaysInYear_def)
qed

lemma DayFromYear_step: "DayFromYear (y + 1) = DayFromYear y + DaysInYear y"
proof -
  have a: "(y - 1968) div 4 = (y - 1969) div 4 + (if y mod 4 = 0 then 1 else 0)"
    using div_succ [of 4 "y - 1969"] by (simp add: mod_shift)
  have b: "(y - 1900) div 100 = (y - 1901) div 100 + (if y mod 100 = 0 then 1 else 0)"
    using div_succ [of 100 "y - 1901"] by (simp add: mod_shift)
  have c: "(y - 1600) div 400 = (y - 1601) div 400 + (if y mod 400 = 0 then 1 else 0)"
    using div_succ [of 400 "y - 1601"] by (simp add: mod_shift)
  have lin: "365 * (y - 1969) + (A + l4) - (B + l100) + (C + l400)
      = 365 * (y - 1970) + A - B + C + (365 + l4 - l100 + l400)" for A B C l4 l100 l400 :: int
    by simp
  have "DayFromYear (y + 1)
      = 365 * (y - 1969) + (y - 1968) div 4 - (y - 1900) div 100 + (y - 1600) div 400"
    by (simp add: DayFromYear_def)
  also have "\<dots> = DayFromYear y + DaysInYear y"
    unfolding a b c DaysInYear_leap DayFromYear_def by (rule lin)
  finally show ?thesis .
qed

lemma DaysInYear_ge: "365 \<le> DaysInYear y"
  by (simp add: DaysInYear_def)

function year_search :: "int \<Rightarrow> int \<Rightarrow> int" where
  "year_search d y = (if DayFromYear (y + 1) \<le> d then year_search d (y + 1) else y)"
  by pat_completeness auto
termination
proof (relation "measure (\<lambda>(d, y). nat (d + 1 - DayFromYear (y + 1)))")
  show "wf (measure (\<lambda>(d, y). nat (d + 1 - DayFromYear (y + 1))))"
    by simp
next
  fix d y :: int
  assume "DayFromYear (y + 1) \<le> d"
  moreover have "DayFromYear (y + 1 + 1) = DayFromYear (y + 1) + DaysInYear (y + 1)"
    by (rule DayFromYear_step)
  ultimately show "((d, y + 1), (d, y)) \<in> measure (\<lambda>(d, y). nat (d + 1 - DayFromYear (y + 1)))"
    using DaysInYear_ge [of "y + 1"] by simp
qed

declare year_search.simps [simp del]

definition YearFromDay :: "int \<Rightarrow> int" where
  "YearFromDay d = year_search d (1970 + (if 0 \<le> d then d div 366 else d div 365))"

definition YearFromTime :: "int \<Rightarrow> int" where
  "YearFromTime t = YearFromDay (Day t)"

definition DayWithinYear :: "int \<Rightarrow> int" where
  "DayWithinYear t = Day t - DayFromYear (YearFromTime t)"

definition InLeapYear :: "int \<Rightarrow> int" where
  "InLeapYear t = (if DaysInYear (YearFromTime t) = 366 then 1 else 0)"

definition month_of :: "int \<Rightarrow> int \<Rightarrow> int" where
  "month_of d l =
     (if d < 31 then 0 else if d < 59 + l then 1 else if d < 90 + l then 2
      else if d < 120 + l then 3 else if d < 151 + l then 4 else if d < 181 + l then 5
      else if d < 212 + l then 6 else if d < 243 + l then 7 else if d < 273 + l then 8
      else if d < 304 + l then 9 else if d < 334 + l then 10 else 11)"

definition month_start :: "int \<Rightarrow> int \<Rightarrow> int" where
  "month_start m l =
     (if m = 0 then 0 else if m = 1 then 31 else if m = 2 then 59 + l
      else if m = 3 then 90 + l else if m = 4 then 120 + l else if m = 5 then 151 + l
      else if m = 6 then 181 + l else if m = 7 then 212 + l else if m = 8 then 243 + l
      else if m = 9 then 273 + l else if m = 10 then 304 + l else 334 + l)"

definition MonthFromTime :: "int \<Rightarrow> int" where
  "MonthFromTime t = month_of (DayWithinYear t) (InLeapYear t)"

definition DateFromTime :: "int \<Rightarrow> int" where
  "DateFromTime t = DayWithinYear t - month_start (MonthFromTime t) (InLeapYear t) + 1"

definition HourFromTime :: "int \<Rightarrow> int" where
  "HourFromTime t = (t div msPerHour) mod 24"

definition MinFromTime :: "int \<Rightarrow> int" where
  "MinFromTime t = (t div msPerMinute) mod 60"

definition SecFromTime :: "int \<Rightarrow> int" where
  "SecFromTime t = (t div msPerSecond) mod 60"

definition msFromTime :: "int \<Rightarrow> int" where
  "msFromTime t = t mod msPerSecond"

text \<open>\<^verbatim>\<open>ToIntegerOrInfinity\<close> of a finite number: the fraction is dropped.\<close>

definition js_trunc :: "rat \<Rightarrow> int" where
  "js_trunc x = (if 0 \<le> x then \<lfloor>x\<rfloor> else \<lceil>x\<rceil>)"

definition MakeTime :: "int \<Rightarrow> int \<Rightarrow> rat \<Rightarrow> int \<Rightarrow> int" where
  "MakeTime hour minute sec ms =
     hour * msPerHour + minute * msPerMinute + js_trunc sec * msPerSecond + ms"

definition MakeDay :: "int \<Rightarrow> int \<Rightarrow> int \<Rightarrow> int" where
  "MakeDay year month date =
     (let ym = year + month div 12; mn = month mod 12
      in DayFromYear ym + month_start mn (if DaysInYear ym = 366 then 1 else 0) + date - 1)"

definition MakeDate :: "int \<Rightarrow> int \<Rightarrow> int" where
  "MakeDate day time = day * msPerDay + time"

text \<open>A time value beyond 8.64e15 ms on either side is no date (\<open>None\<close>).\<close>

definition TimeClip :: "int \<Rightarrow> int option" where
  "TimeClip t = (if 8640000000000000 < \<bar>t\<bar> then None else Some t)"

text \<open>
  The offset of local time from UTC in ms is given by the host: \<open>tza t True\<close> at the UTC
  time \<open>t\<close>, \<open>tza t False\<close> at the local time \<open>t\<close>.
\<close>

definition LocalTime :: "(int \<Rightarrow> bool \<Rightarrow> int) \<Rightarrow> int \<Rightarrow> int" where
  "LocalTime tza t = t + tza t True"

definition UTC :: "(int \<Rightarrow> bool \<Rightarrow> int) \<Rightarrow> int \<Rightarrow> int" where
  "UTC tza t = t - tza t False"

definition Date_UTC :: "int \<Rightarrow> int \<Rightarrow> int \<Rightarrow> int option" where
  "Date_UTC year month date = TimeClip (MakeDate (MakeDay year month date) (MakeTime 0 0 0 0))"

definition getSeconds :: "(int \<Rightarrow> bool \<Rightarrow> int) \<Rightarrow> int \<Rightarrow> int" where
  "getSeconds tza tv = SecFromTime (LocalTime tza tv)"

definition setSeconds :: "(int \<Rightarrow> bool \<Rightarrow> int) \<Rightarrow> int \<Rightarrow> rat \<Rightarrow> int option" where
  "setSeconds tza tv sec =
     (let t = LocalTime tza tv;
          date = MakeDate (Day t) (MakeTime (HourFromTime t) (MinFromTime t) sec (msFromTime t))
      in TimeClip (UTC tza date))"

text \<open>Decimal digits padded with zeros on the left.\<close>

definition pad :: "nat \<Rightarrow> nat \<Rightarrow> string" where
  "pad n k = replicate (n - length (show_nat k)) (CHR ''0'') @ show_nat k"

definition year_string :: "int \<Rightarrow> string" where
  "year_string y =
     (if 0 \<le> y \<and> y \<le> 9999 then pad 4 (nat y)
      else (if y < 0 then ''-'' else ''+'') @ pad 6 (nat \<bar>y\<bar>))"

definition toISOString :: "int option \<Rightarrow> js_error + string" where
  "toISOString tv =
     (case tv of
        None \<Rightarrow> Inl RangeError
      | Some t \<Rightarrow>
          Inr (year_string (YearFromTime t) @ ''-'' @ pad 2 (nat (MonthFromTime t + 1)) @ ''-''
               @ pad 2 (nat (DateFromTime t)) @ ''T'' @ pad 2 (nat (HourFromTime t)) @ '':''
               @ pad 2 (nat (MinFromTime t)) @ '':'' @ pad 2 (nat (SecFromTime t)) @ ''.''
               @ pad 3 (nat (msFromTime t)) @ ''Z''))"

text \<open>\<^verbatim>\<open>s.replace(c, d)\<close> for single characters, and \<^verbatim>\<open>s.slice(0, -n)\<close>.\<close>

fun replace_first :: "char \<Rightarrow> char \<Rightarrow> string \<Rightarrow> string" where
  "replace_first c d [] = []"
| "replace_first c d (x # xs) = (if x = c then d # xs else x # replace_first c d xs)"

definition slice_off :: "nat \<Rightarrow> string \<Rightarrow> string" where
  "slice_off n s = take (length s - n) s"

text \<open>
  \<^verbatim>\<open>formatSimTime\<close> of \<^verbatim>\<open>SimulationInfo\<close>, on a finite number of seconds, in a host
  whose local time is given by \<open>tza\<close>.
\<close>

definition formatSimTime :: "(int \<Rightarrow> bool \<Rightarrow> int) \<Rightarrow> rat \<Rightarrow> js_error + string" where
  "formatSimTime tza seconds =
     (case Date_UTC 2024 0 1 of
        None \<Rightarrow> Inl RangeError
      | Some date \<Rightarrow>
          bind_err (toISOString (setSeconds tza date (of_int (getSeconds tza date) + seconds)))
            (\<lambda>iso. Inr (slice_off 5 (replace_first (CHR ''T'') (CHR '' '') iso))))"

text \<open>
  The instant that a calendar date and time of day denote, in seconds since
  1970-01-01T00:00:00Z: the days of the years before (counted from year 0), of the months
  before and of the month, by the leap year rule of the Gregorian calendar.
\<close>

definition leap_year :: "int \<Rightarrow> bool" where
  "leap_year y = (y mod 4 = 0 \<and> (y mod 100 \<noteq> 0 \<or> y mod 400 = 0))"

definition month_lengths :: "int \<Rightarrow> int list" where
  "month_lengths y = [31, if leap_year y then 29 else 28, 31, 30, 31, 30, 31, 31, 30, 31, 30, 31]"

definition days_before_year :: "int \<Rightarrow> int" where
  "days_before_year y = 365 * y + (y + 3) div 4 - (y + 99) div 100 + (y + 399) div 400"

definition civil_seconds :: "int \<Rightarrow> nat \<Rightarrow> int \<Rightarrow> int \<Rightarrow> int \<Rightarrow> int \<Rightarrow> int" where
  "civil_seconds y mo d h mi s =
     (days_before_year y - days_before_year 1970 + sum_list (take (mo - 1) (month_lengths y))
        + d - 1) * 86400
     + h * 3600 + mi * 60 + s"

text \<open>
  The instant that a string of the form \<^verbatim>\<open>YYYY-MM-DD hh:mm:ss\<close> denotes, the year
  being four digits, or a sign and six digits.
\<close>

definition year_of :: "string \<Rightarrow> (int \<times> string) option" where
  "year_of s =
     (if s \<noteq> [] \<and> (hd s = CHR ''+'' \<or> hd s = CHR ''-'')
      then (if 7 \<le> length s \<and> list_all is_digit (take 6 (tl s))
            then Some ((if hd s = CHR ''-'' then - 1 else 1) * int (digits_value (take 6 (tl s))),
                       drop 7 s)
            else None)
      else (if 4 \<le> length s \<and> list_all is_digit (take 4 s)
            then Some (int (digits_value (take 4 s)), drop 4 s)
            else None))"

definition calendar_instant :: "string \<Rightarrow> int option" where
  "calendar_instant s =
     (case year_of s of
        None \<Rightarrow> None
      | Some (y, r) \<Rightarrow>
          if length r = 15 \<and> r ! 0 = CHR ''-'' \<and> two_digits (take 2 (drop 1 r)) 1 12
             \<and> r ! 3 = CHR ''-'' \<and> two_digits (take 2 (drop 4 r)) 1 31 \<and> r ! 6 = CHR '' ''
             \<and> iso_time (drop 7 r)
          then Some (civil_seconds y (digits_value (take 2 (drop 1 r)))
                       (int (digits_value (take 2 (drop 4 r))))
                       (int (digits_value (take 2 (drop 7 r))))
                       (int (digits_value (take 2 (drop 10 r))))
                       (int (digits_value (take 2 (drop 13 r)))))
          else None)"


text \<open>The epoch of the simulation, 2024-01-01T00:00:00Z, in seconds since 1970.\<close>

definition epoch_seconds :: int where
  "epoch_seconds = 1704067200"

text \<open>
  A host five hours behind UTC that moves to four hours behind on 2024-03-10 at 07:00 UTC
  (daylight saving time).
\<close>

definition dst_host :: "int \<Rightarrow> bool \<Rightarrow> int" where
  "dst_host t isUTC =
     (if isUTC then (if t < 1710054000000 then - 18000000 else - 14400000)
      else (if t < 1710054000000 - 14400000 then - 18000000 else - 14400000))"

section \<open>Sending while the socket is not open\<close>

text \<open>
  C9. A command goes out only through a socket that exists and is open, and then it is the
  one frame added; in every other case \<^verbatim>\<open>sendCommand\<close> and \<^verbatim>\<open>sendMessage\<close> return
  normally and leave the reference as it was: nothing is sent, nothing is kept for later.
\<close>

theorem send_only_when_open:
  "sendCommand cur c =
     Inr (case cur of
            None \<Rightarrow> None
          | Some ws \<Rightarrow>
              if readyState ws = OPEN then Some (ws\<lparr>sent := sent ws @ [JSON_stringify c]\<rparr>)
              else Some ws)
   \<and> sendMessage cur c = sendCommand cur c
   \<and> ((\<forall>ws. cur = Some ws \<longrightarrow> readyState ws \<noteq> OPEN) \<longrightarrow> sendCommand cur c = Inr cur)"
  by (auto simp: sendCommand_def sendMessage_def ws_send_def OPEN_def CONNECTING_def
      split: option.splits)

theorem send_only_when_open_witness:
  "readyState \<lparr>readyState = CLOSED, sent = []\<rparr> \<noteq> OPEN
   \<and> sendCommand (Some \<lparr>readyState = CLOSED, sent = []\<rparr>)
         (JObj [(''type'', JStr ''control''), (''action'', JStr ''play'')])
       = Inr (Some \<lparr>readyState = CLOSED, sent = []\<rparr>)
   \<and> sendMessage (Some \<lparr>readyState = CLOSED, sent = []\<rparr>)
         (JObj [(''type'', JStr ''control''), (''action'', JStr ''play'')])
       = Inr (Some \<lparr>readyState = CLOSED, sent = []\<rparr>)"
  using send_only_when_open [of "Some \<lparr>readyState = CLOSED, sent = []\<rparr>"
      "JObj [(''type'', JStr ''control''), (''action'', JStr ''play'')]"]
  by (simp add: OPEN_def CLOSED_def)

section \<open>Commands on the wire\<close>

lemma concat_single:
  "i < n \<Longrightarrow> concat (map (\<lambda>j. if j = i then fs else []) [0 ..< n]) = fs"
  by (induction n) auto

lemma frames_sent_update:
  assumes "i < length (sockets e)"
    and "sockets e' = (sockets e)[i := (sockets e ! i)\<lparr>sent := sent (sockets e ! i) @ fs\<rparr>]"
  shows "frames_sent e e' = fs"
proof -
  have "map (\<lambda>j. drop (length (sent (sockets e ! j))) (sent (sockets e' ! j))) [0 ..< length (sockets e)]
      = map (\<lambda>j. if j = i then fs else []) [0 ..< length (sockets e)]"
    using assms by (intro map_cong) (auto simp: nth_list_update)
  then have "frames_sent e e' = concat (map (\<lambda>j. if j = i then fs else []) [0 ..< length (sockets e)])"
    unfolding frames_sent_def by (simp only:)
  also have "\<dots> = fs"
    by (rule concat_single [OF assms(1)])
  finally show ?thesis .
qed

lemma frames_sent_same: "sockets e' = sockets e \<Longrightarrow> frames_sent e e' = []"
  by (simp add: frames_sent_def)

lemma engine_sendCommand_eq:
  "engine_sendCommand e c =
     Inr (case wsRef e of
            None \<Rightarrow> e
          | Some i \<Rightarrow>
              if readyState (sockets e ! i) = OPEN
              then e\<lparr>sockets := (sockets e)[i := (sockets e ! i)\<lparr>sent := sent (sockets e ! i) @ [JSON_stringify c]\<rparr>]\<rparr>
              else e)"
  by (simp add: engine_sendCommand_def sendCommand_def ws_send_def bind_err_def OPEN_def CONNECTING_def
      split: option.splits)

text \<open>What a command does to the wire and to the request log, whatever the socket's state.\<close>

lemma engine_sendCommand_frames:
  assumes "wf_ref e"
  shows "\<exists>e1. engine_sendCommand e c = Inr e1
     \<and> frames_sent e e1 = (if socket_open e then [JSON_stringify c] else [])
     \<and> requests e1 = requests e \<and> wsRef e1 = wsRef e \<and> length (sockets e1) = length (sockets e)
     \<and> simulationState e1 = simulationState e \<and> timers e1 = timers e"
  using assms
  by (auto simp: engine_sendCommand_eq wf_ref_def socket_open_def frames_sent_update frames_sent_same
      split: option.splits simp del: JSON_stringify.simps)

lemma frames_sent_requests [simp]: "frames_sent e (e1\<lparr>requests := r\<rparr>) = frames_sent e e1"
  by (simp add: frames_sent_def)

lemma handleSpeedChange_effect:
  assumes "wf_ref e"
  shows "\<exists>e'. handleSpeedChange e speed = Inr e'
     \<and> frames_sent e e' =
         (if socket_open e
          then [JSON_stringify (JObj [(''type'', JStr ''control''), (''action'', JStr ''set_speed''), (''speed'', speed)])]
          else [])
     \<and> requests_issued e e' =
         [(''http://localhost:8000/api/control/time'',
           JSON_stringify (JObj [(''action'', JStr ''set_speed''), (''speed'', speed)]))]"
proof -
  from engine_sendCommand_frames [OF assms] obtain e1 where
    e1: "engine_sendCommand e (JObj [(''type'', JStr ''control''), (''action'', JStr ''set_speed''), (''speed'', speed)]) = Inr e1"
    and fr: "frames_sent e e1 = (if socket_open e then [JSON_stringify (JObj [(''type'', JStr ''control''), (''action'', JStr ''set_speed''), (''speed'', speed)])] else [])"
    and rq: "requests e1 = requests e"
    by blast
  show ?thesis
    unfolding handleSpeedChange_def e1 bind_err_def
    using fr rq by (simp add: requests_issued_def fetch_post_def del: JSON_stringify.simps)
qed

lemma handlePlayPause_effect:
  assumes "wf_ref e" and "get_prop (simulationState e) ''is_playing'' = Inr p"
  shows "\<exists>e'. handlePlayPause e = Inr e'
     \<and> frames_sent e e' =
         (if socket_open e
          then [JObj [(''type'', JStr ''control''), (''action'', JStr (if to_boolean p then ''pause'' else ''play''))]]
          else [])
     \<and> requests_issued e e' =
         [(''http://localhost:8000/api/control/time'',
           JObj [(''action'', JStr (if to_boolean p then ''pause'' else ''play''))])]"
proof -
  let ?a = "JStr (if to_boolean p then ''pause'' else ''play'')"
  from engine_sendCommand_frames [OF assms(1)] obtain e1 where
    e1: "engine_sendCommand e (JObj [(''type'', JStr ''control''), (''action'', ?a)]) = Inr e1"
    and fr: "frames_sent e e1 = (if socket_open e then [JSON_stringify (JObj [(''type'', JStr ''control''), (''action'', ?a)])] else [])"
    and rq: "requests e1 = requests e"
    by blast
  show ?thesis
    unfolding handlePlayPause_def assms(2) bind_err_def Let_def
    using e1 fr rq by (simp add: requests_issued_def fetch_post_def)
qed

lemma handleBodyClick_effect:
  assumes "wf_ref e"
  shows "\<exists>e'. handleBodyClick e (JStr b) = Inr e'
     \<and> frames_sent e e' =
         (if socket_open e then [JObj [(''type'', JStr ''focus''), (''body_name'', JStr b)]] else [])
     \<and> requests_issued e e' =
         [(''http://localhost:8000/api/focus'', JObj [(''body_name'', JStr b)])]"
proof -
  let ?e0 = "e\<lparr>selectedBody := JStr (toLowerCase b)\<rparr>"
  have wf: "wf_ref ?e0"
    using assms by (simp add: wf_ref_def split: option.splits)
  from engine_sendCommand_frames [OF wf] obtain e1 where
    e1: "engine_sendCommand ?e0 (JObj [(''type'', JStr ''focus''), (''body_name'', JStr b)]) = Inr e1"
    and fr: "frames_sent ?e0 e1 = (if socket_open ?e0 then [JSON_stringify (JObj [(''type'', JStr ''focus''), (''body_name'', JStr b)])] else [])"
    and rq: "requests e1 = requests ?e0"
    by blast
  have so: "socket_open ?e0 = socket_open e"
    by (cases "wsRef e") (simp_all add: socket_open_def)
  have "frames_sent e e1 = frames_sent ?e0 e1"
    by (simp add: frames_sent_def)
  then show ?thesis
    unfolding handleBodyClick_def
    using e1 fr rq so by (simp add: requests_issued_def fetch_post_def bind_err_def)
qed


section \<open>Reachable states of the view\<close>

lemma handler_keeps_sockets:
  assumes "wf_ref e"
  shows "engine_sendCommand e c = Inr e1 \<Longrightarrow>
           wsRef e1 = wsRef e \<and> length (sockets e1) = length (sockets e) \<and> timers e1 = timers e
           \<and> map readyState (sockets e1) = map readyState (sockets e)"
  using assms
  by (auto simp: engine_sendCommand_eq wf_ref_def list_eq_iff_nth_eq nth_list_update
      split: option.splits if_splits simp del: JSON_stringify.simps)

lemma list_ex_update:
  assumes "i < length xs" and "P x"
  shows "list_ex P (xs[i := x])"
proof -
  have "x \<in> set (xs[i := x])"
    using assms(1) by (rule set_update_memI)
  then show ?thesis
    unfolding list_ex_iff using assms(2) by (rule bexI [rotated])
qed


lemma or_unchanged_cases:
  "or_unchanged e r = e \<or> (\<exists>e'. r = Inr e' \<and> or_unchanged e r = e')"
  by (cases r) (simp_all add: or_unchanged_def)

lemma handlePlayPause_keeps:
  assumes "wf_ref e" "handlePlayPause e = Inr e'"
  shows "wsRef e' = wsRef e \<and> timers e' = timers e
         \<and> map readyState (sockets e') = map readyState (sockets e)"
  using assms
  by (auto simp: handlePlayPause_def bind_err_def Let_def fetch_post_def
      split: sum.splits dest!: handler_keeps_sockets [OF assms(1)])

lemma handleSpeedChange_keeps:
  assumes "wf_ref e" "handleSpeedChange e sp = Inr e'"
  shows "wsRef e' = wsRef e \<and> timers e' = timers e
         \<and> map readyState (sockets e') = map readyState (sockets e)"
  using assms
  by (auto simp: handleSpeedChange_def bind_err_def fetch_post_def
      split: sum.splits dest!: handler_keeps_sockets [OF assms(1)])

lemma handleBodyClick_keeps:
  assumes "wf_ref e" "handleBodyClick e b = Inr e'"
  shows "wsRef e' = wsRef e \<and> timers e' = timers e
         \<and> map readyState (sockets e') = map readyState (sockets e)"
proof (cases b)
  case (JStr s)
  have wf: "wf_ref (e\<lparr>selectedBody := JStr (toLowerCase s)\<rparr>)"
    using assms(1) by (simp add: wf_ref_def split: option.splits)
  show ?thesis
    using assms(2) JStr handler_keeps_sockets [OF wf]
    by (auto simp: handleBodyClick_def bind_err_def fetch_post_def split: sum.splits)
qed (use assms in \<open>simp_all add: handleBodyClick_def\<close>)

lemma inv_by_sockets:
  assumes "engine_inv e" "wsRef e' = wsRef e" "timers e' = timers e"
    "map readyState (sockets e') = map readyState (sockets e)"
  shows "engine_inv e'"
proof -
  have len: "length (sockets e') = length (sockets e)"
    using assms(4) by (metis length_map)
  have "list_ex (\<lambda>ws. readyState ws \<noteq> CLOSED) (sockets e')
      = list_ex (\<lambda>st. st \<noteq> CLOSED) (map readyState (sockets e'))"
    by (simp add: list_ex_iff)
  moreover have "list_ex (\<lambda>ws. readyState ws \<noteq> CLOSED) (sockets e)
      = list_ex (\<lambda>st. st \<noteq> CLOSED) (map readyState (sockets e))"
    by (simp add: list_ex_iff)
  ultimately show ?thesis
    using assms len by (simp add: engine_inv_def wf_ref_def reconnect_pending_def split: option.splits)
qed

lemma inv_fire:
  assumes "engine_inv e" "fire e ev = Some e'"
  shows "engine_inv e'"
proof (cases ev)
  case (SocketOpens i)
  with assms have i: "i < length (sockets e)"
    and e': "e' = ws_onopen (set_readyState e i OPEN)"
    by (simp_all split: if_splits)
  have "list_ex (\<lambda>ws. readyState ws \<noteq> CLOSED) (sockets e')"
    unfolding e' ws_onopen_def set_readyState_def
    using i by (simp add: list_ex_update OPEN_def CLOSED_def)
  then show ?thesis
    using assms(1) i by (simp add: e' engine_inv_def wf_ref_def reconnect_pending_def ws_onopen_def
        set_readyState_def split: option.splits)
next
  case (SocketCloses i)
  with assms show ?thesis
    by (auto simp: engine_inv_def wf_ref_def reconnect_pending_def ws_onclose_def setTimeout_def
        set_readyState_def split: if_splits option.splits)
next
  case (SocketMessage i parsed)
  with assms show ?thesis
    by (auto simp: engine_inv_def wf_ref_def reconnect_pending_def ws_onmessage_def
        split: if_splits option.splits sum.splits)
next
  case (TimePasses d)
  with assms show ?thesis
    by (auto simp: engine_inv_def wf_ref_def reconnect_pending_def split: option.splits)
next
  case (TimerFires k)
  with assms show ?thesis
    by (auto simp: engine_inv_def wf_ref_def reconnect_pending_def run_callback_def connectWebSocket_def
        CONNECTING_def CLOSED_def split: if_splits option.splits callback.splits)
next
  case ClickPlayPause
  with assms have e': "e' = or_unchanged e (handlePlayPause e)" by simp
  show ?thesis
    using or_unchanged_cases [of e "handlePlayPause e"] assms(1) e'
      handlePlayPause_keeps inv_by_sockets
    by (metis engine_inv_def)
next
  case (ChooseSpeed k)
  with assms have e': "e' = or_unchanged e (select_onChange e (option_value (speedOptions ! k)))"
    by (simp split: if_splits)
  show ?thesis
    using or_unchanged_cases [of e "select_onChange e (option_value (speedOptions ! k))"] assms(1) e'
      handleSpeedChange_keeps inv_by_sockets
    unfolding select_onChange_def by (metis engine_inv_def)
next
  case (ClickBody name)
  with assms have e': "e' = or_unchanged e (handleBodyClick e name)" by simp
  show ?thesis
    using or_unchanged_cases [of e "handleBodyClick e name"] assms(1) e'
      handleBodyClick_keeps inv_by_sockets
    by (metis engine_inv_def)
qed

lemma inv_mounted: "engine_inv (mounted t)"
  by (simp add: engine_inv_def wf_ref_def reconnect_pending_def mounted_def connectWebSocket_def
      CONNECTING_def CLOSED_def)

lemma reachable_inv: "reachable e \<Longrightarrow> engine_inv e"
  by (induction rule: reachable.induct) (auto intro: inv_mounted inv_fire)



section \<open>The shape of the commands\<close>

text \<open>
  C2, as amended. Whenever the reference points to a created socket, each interaction
  returns and puts exactly one frame on the wire if that socket is open (none otherwise):
  play/pause sends \<^verbatim>\<open>{type: "control", action: "play" | "pause"}\<close>, a speed change sends
  \<^verbatim>\<open>{type: "control", action: "set_speed", speed}\<close>, and a click on a body sends
  \<^verbatim>\<open>{type: "focus", body_name}\<close>. The discriminator is \<^verbatim>\<open>type\<close> and the focus target
  is \<^verbatim>\<open>body_name\<close>.
\<close>

theorem commands_use_type_and_body_name:
  assumes "wf_ref e"
  shows "(\<forall>p. get_prop (simulationState e) ''is_playing'' = Inr p \<longrightarrow>
            (\<exists>e'. handlePlayPause e = Inr e'
               \<and> frames_sent e e' =
                   (if socket_open e
                    then [JObj [(''type'', JStr ''control''),
                                (''action'', JStr (if to_boolean p then ''pause'' else ''play''))]]
                    else [])))
       \<and> (\<exists>e'. handleSpeedChange e (JNum v) = Inr e'
               \<and> frames_sent e e' =
                   (if socket_open e
                    then [JObj [(''type'', JStr ''control''), (''action'', JStr ''set_speed''),
                                (''speed'', JNum v)]]
                    else []))
       \<and> (\<exists>e'. handleBodyClick e (JStr b) = Inr e'
               \<and> frames_sent e e' =
                   (if socket_open e
                    then [JObj [(''type'', JStr ''focus''), (''body_name'', JStr b)]]
                    else []))"
proof (intro conjI allI impI)
  fix p
  assume "get_prop (simulationState e) ''is_playing'' = Inr p"
  from handlePlayPause_effect [OF assms this]
  show "\<exists>e'. handlePlayPause e = Inr e'
               \<and> frames_sent e e' =
                   (if socket_open e
                    then [JObj [(''type'', JStr ''control''),
                                (''action'', JStr (if to_boolean p then ''pause'' else ''play''))]]
                    else [])"
    by blast
next
  from handleSpeedChange_effect [OF assms, of "JNum v"]
  show "\<exists>e'. handleSpeedChange e (JNum v) = Inr e'
               \<and> frames_sent e e' =
                   (if socket_open e
                    then [JObj [(''type'', JStr ''control''), (''action'', JStr ''set_speed''),
                                (''speed'', JNum v)]]
                    else [])"
    by auto
next
  from handleBodyClick_effect [OF assms, of b]
  show "\<exists>e'. handleBodyClick e (JStr b) = Inr e'
               \<and> frames_sent e e' =
                   (if socket_open e
                    then [JObj [(''type'', JStr ''focus''), (''body_name'', JStr b)]]
                    else [])"
    by blast
qed

lemma connected_engine_simps:
  "wf_ref connected_engine" "socket_open connected_engine"
  "get_prop (simulationState connected_engine) ''is_playing'' = Inr (JBool False)"
  by (simp_all add: connected_engine_def wf_ref_def socket_open_def ws_onopen_def
      set_readyState_def mounted_def connectWebSocket_def initial_simulationState_def field_def)

theorem commands_use_type_and_body_name_witness:
  "wf_ref connected_engine
   \<and> get_prop (simulationState connected_engine) ''is_playing'' = Inr (JBool False)
   \<and> (\<exists>e'. handlePlayPause connected_engine = Inr e'
        \<and> frames_sent connected_engine e'
            = [JObj [(''type'', JStr ''control''), (''action'', JStr ''play'')]])
   \<and> (\<exists>e'. handleSpeedChange connected_engine (JNum 10) = Inr e'
        \<and> frames_sent connected_engine e'
            = [JObj [(''type'', JStr ''control''), (''action'', JStr ''set_speed''),
                     (''speed'', JNum 10)]])
   \<and> (\<exists>e'. handleBodyClick connected_engine (JStr ''Earth'') = Inr e'
        \<and> frames_sent connected_engine e'
            = [JObj [(''type'', JStr ''focus''), (''body_name'', JStr ''Earth'')]])"
  using commands_use_type_and_body_name [OF connected_engine_simps(1), of 10 "''Earth''"]
    connected_engine_simps
  by simp

text \<open>
  C2, as stated, fails: the frames of a play click and of a body click carry no
  \<^verbatim>\<open>kind\<close> and no \<^verbatim>\<open>body\<close>, so neither is a Command of the interface section.
\<close>

theorem commands_kind_counterexample:
  "frames_of connected_engine (handlePlayPause connected_engine)
     = [JObj [(''type'', JStr ''control''), (''action'', JStr ''play'')]]
   \<and> \<not> spec_Command (JObj [(''type'', JStr ''control''), (''action'', JStr ''play'')])
   \<and> frames_of connected_engine (handleBodyClick connected_engine (JStr ''Earth''))
     = [JObj [(''type'', JStr ''focus''), (''body_name'', JStr ''Earth'')]]
   \<and> \<not> spec_Command (JObj [(''type'', JStr ''focus''), (''body_name'', JStr ''Earth'')])"
  by code_simp

section \<open>The speeds the time controls can send\<close>

lemma show_nat_numeral:
  "show_nat (numeral k) =
     (if (numeral k :: nat) < 10 then [digit_char (numeral k)]
      else show_nat (numeral k div 10) @ [digit_char (numeral k mod 10)])"
  by (rule show_nat.simps)

lemma show_nat_small: "show_nat 0 = ''0''" "show_nat 1 = ''1''" "show_nat (Suc 0) = ''1''"
  by (simp_all add: show_nat.simps [of 0] show_nat.simps [of 1] show_nat.simps [of "Suc 0"]
      digit_char_def)

lemma speedOptions_values:
  "map option_value speedOptions
     = [''1'', ''10'', ''100'', ''1000'', ''10000'', ''100000'', ''1000000'']"
  by (simp add: speedOptions_def option_value_def show_nat_numeral show_nat_small digit_char_def)

lemma parseFloat_values:
  "map parseFloat [''1'', ''10'', ''100'', ''1000'', ''10000'', ''100000'', ''1000000'']
     = [JNum 1, JNum 10, JNum 100, JNum 1000, JNum 10000, JNum 100000, JNum 1000000]"
  by (simp add: parseFloat_def is_space_def is_digit_def digits_value_def pow10_def
      exponent_part_def Let_def)

lemma speedOptions_parsed:
  "map (\<lambda>opt. parseFloat (option_value opt)) speedOptions
     = [JNum 1, JNum 10, JNum 100, JNum 1000, JNum 10000, JNum 100000, JNum 1000000]"
proof -
  have "map (\<lambda>opt. parseFloat (option_value opt)) speedOptions
      = map parseFloat (map option_value speedOptions)"
    by simp
  then show ?thesis
    by (simp only: speedOptions_values parseFloat_values)
qed

lemma speed_option_value:
  assumes "k < length speedOptions"
  shows "\<exists>v \<in> {1, 10, 100, 1000, 10000, 100000, 1000000}.
           parseFloat (option_value (speedOptions ! k)) = JNum v"
proof -
  let ?f = "\<lambda>opt. parseFloat (option_value opt)"
  have "speedOptions ! k \<in> set speedOptions"
    using assms by (rule nth_mem)
  then have "?f (speedOptions ! k) \<in> ?f ` set speedOptions"
    by (rule imageI)
  also have "?f ` set speedOptions = set (map ?f speedOptions)"
    by (rule set_map [symmetric])
  also have "\<dots> = set [JNum 1, JNum 10, JNum 100, JNum 1000, JNum 10000, JNum 100000, JNum 1000000]"
    by (simp only: speedOptions_parsed)
  finally have "?f (speedOptions ! k) = JNum 1 \<or> ?f (speedOptions ! k) = JNum 10
      \<or> ?f (speedOptions ! k) = JNum 100 \<or> ?f (speedOptions ! k) = JNum 1000
      \<or> ?f (speedOptions ! k) = JNum 10000 \<or> ?f (speedOptions ! k) = JNum 100000
      \<or> ?f (speedOptions ! k) = JNum 1000000"
    by (simp only: list.set insert_iff empty_iff simp_thms)
  then show ?thesis
  proof (elim disjE)
    assume "?f (speedOptions ! k) = JNum 1"
    then show ?thesis by simp
  next
    assume "?f (speedOptions ! k) = JNum 10"
    then show ?thesis by simp
  next
    assume "?f (speedOptions ! k) = JNum 100"
    then show ?thesis by simp
  next
    assume "?f (speedOptions ! k) = JNum 1000"
    then show ?thesis by simp
  next
    assume "?f (speedOptions ! k) = JNum 10000"
    then show ?thesis by simp
  next
    assume "?f (speedOptions ! k) = JNum 100000"
    then show ?thesis by simp
  next
    assume "?f (speedOptions ! k) = JNum 1000000"
    then show ?thesis by simp
  qed
qed

text \<open>
  C7. Choosing an option of the speed selector, in any state whose reference points to a
  created socket, hands \<^verbatim>\<open>handleSpeedChange\<close> one of the seven option values: the frame
  sent (if the socket is open) and the request posted carry that speed, and it is positive.
\<close>

theorem set_speed_from_options:
  assumes "wf_ref e" and "fire e (ChooseSpeed k) = Some e'"
  shows "\<exists>v \<in> {1, 10, 100, 1000, 10000, 100000, 1000000}.
           0 < v
         \<and> frames_sent e e' =
             (if socket_open e
              then [JObj [(''type'', JStr ''control''), (''action'', JStr ''set_speed''),
                          (''speed'', JNum v)]]
              else [])
         \<and> requests_issued e e' =
             [(''http://localhost:8000/api/control/time'',
               JObj [(''action'', JStr ''set_speed''), (''speed'', JNum v)])]"
proof -
  from assms(2) have k: "k < length speedOptions"
    and e': "e' = or_unchanged e (select_onChange e (option_value (speedOptions ! k)))"
    by (simp_all split: if_splits)
  from speed_option_value [OF k] obtain v where
    v: "v \<in> {1, 10, 100, 1000, 10000, 100000, 1000000}"
    and pf: "parseFloat (option_value (speedOptions ! k)) = JNum v"
    by blast
  from handleSpeedChange_effect [OF assms(1), of "JNum v"] obtain e2 where
    e2: "handleSpeedChange e (JNum v) = Inr e2"
    and fr: "frames_sent e e2 =
         (if socket_open e
          then [JSON_stringify (JObj [(''type'', JStr ''control''), (''action'', JStr ''set_speed''), (''speed'', JNum v)])]
          else [])"
    and rq: "requests_issued e e2 =
         [(''http://localhost:8000/api/control/time'',
           JSON_stringify (JObj [(''action'', JStr ''set_speed''), (''speed'', JNum v)]))]"
    by blast
  have "e' = e2"
    by (simp add: e' select_onChange_def pf e2 or_unchanged_def)
  moreover have "0 < v"
    using v by auto
  ultimately show ?thesis
    using v fr rq by (intro bexI [of _ v]) simp_all
qed

theorem set_speed_from_options_witness:
  "wf_ref connected_engine
   \<and> (\<exists>e' v. fire connected_engine (ChooseSpeed 3) = Some e' \<and> 0 < v
         \<and> frames_sent connected_engine e'
             = [JObj [(''type'', JStr ''control''), (''action'', JStr ''set_speed''),
                      (''speed'', JNum v)]])"
proof -
  have "3 < length speedOptions"
    by (simp add: speedOptions_def)
  then obtain e' where f: "fire connected_engine (ChooseSpeed 3) = Some e'"
    by simp
  from set_speed_from_options [OF connected_engine_simps(1) f] connected_engine_simps(1,2) f
  show ?thesis
    by auto
qed

section \<open>Reconnecting after a close\<close>

text \<open>
  C10. Whenever a socket of the view closes, the handler clears the connected flag and
  adds a timer for \<^verbatim>\<open>connectWebSocket\<close> due 3000 ms from now; a timer fires only once it
  is due, and then creates a new connecting socket that the reference points to. Hence in
  every state the view can reach, some socket is not closed yet or a timer is pending.
\<close>

theorem close_schedules_reconnect:
  "(fire e (SocketCloses i) = Some e' \<longrightarrow>
      isConnected e' = False
    \<and> timers e' = timers e @ [(now e + 3000, ConnectWebSocket)]
    \<and> readyState (sockets e' ! i) = CLOSED)
   \<and> (fire e (TimerFires k) = Some e' \<longrightarrow>
      fst (timers e ! k) \<le> now e
    \<and> sockets e' = sockets e @ [\<lparr>readyState = CONNECTING, sent = []\<rparr>]
    \<and> wsRef e' = Some (length (sockets e)))
   \<and> (reachable e \<longrightarrow> reconnect_pending e)"
proof (intro conjI impI)
  assume "reachable e"
  then show "reconnect_pending e"
    using reachable_inv by (simp add: engine_inv_def)
qed (auto simp: ws_onclose_def setTimeout_def set_readyState_def run_callback_def
      connectWebSocket_def split: if_splits callback.splits)


lemma fire_close_connected: "fire connected_engine (SocketCloses 0) = Some closed_engine"
  by (simp add: closed_engine_def connected_engine_def ws_onopen_def set_readyState_def
      mounted_def connectWebSocket_def OPEN_def CLOSED_def)

lemma reachable_connected: "reachable connected_engine"
proof -
  have "fire (mounted (JStr ''2024-01-01T00:00:00.000Z'')) (SocketOpens 0) = Some connected_engine"
    by (simp add: connected_engine_def mounted_def connectWebSocket_def)
  then show ?thesis
    using reachable.start reachable.event by blast
qed

theorem close_schedules_reconnect_witness:
  "fire connected_engine (SocketCloses 0) = Some closed_engine
   \<and> isConnected closed_engine = False
   \<and> timers closed_engine = [(3000, ConnectWebSocket)]
   \<and> reachable connected_engine \<and> reconnect_pending connected_engine"
proof -
  have "timers connected_engine = []" "now connected_engine = 0"
    by (simp_all add: connected_engine_def ws_onopen_def set_readyState_def mounted_def
        connectWebSocket_def)
  then show ?thesis
    using close_schedules_reconnect [of connected_engine 0 closed_engine]
      fire_close_connected reachable_connected
    by simp
qed

section \<open>The field names of a state snapshot\<close>

text \<open>
  C1, as amended. After a \<^verbatim>\<open>state_update\<close> message whose data is an object, the view
  renders with the simulation time read from \<^verbatim>\<open>timestamp\<close>, the wall time from
  \<^verbatim>\<open>real_timestamp\<close>, the acceleration factor from \<^verbatim>\<open>time_scale\<close> and the play flag from
  \<^verbatim>\<open>is_playing\<close>; a mission is drawn when its \<^verbatim>\<open>status\<close> is active and its
  \<^verbatim>\<open>current_position\<close> is set, at the coordinates held there, and not drawn otherwise.
\<close>

theorem snapshot_read_under_client_names:
  assumes "get_prop message ''type'' = Inr (JStr ''state_update'')"
    and "get_prop message ''data'' = Inr (JObj snap)"
  shows "render_props (ws_onmessage e (Some message))
           = Inr \<lparr>info_timestamp = field snap ''timestamp'',
                  info_realTime = field snap ''real_timestamp'',
                  controls_isPlaying = field snap ''is_playing'',
                  controls_timeScale = field snap ''time_scale'',
                  system_bodies = field snap ''bodies'',
                  system_missions = field snap ''missions''\<rparr>
       \<and> (field m ''status'' = JStr ''active'' \<and> field m ''current_position'' = JArr ps \<longrightarrow>
            render_mission (JObj m)
              = Inr (Some \<lparr>key = field m ''id'', position = [elem ps 0, elem ps 1, elem ps 2],
                           trail = js_or (field m ''trajectory'') (JArr [])\<rparr>))
       \<and> (field m ''status'' \<noteq> JStr ''active'' \<or> \<not> to_boolean (field m ''current_position'') \<longrightarrow>
            render_mission (JObj m) = Inr None)"
  using assms
  by (auto simp: ws_onmessage_def render_props_def render_mission_def bind_err_def)

theorem snapshot_read_under_client_names_witness:
  "get_prop (state_update client_snapshot) ''type'' = Inr (JStr ''state_update'')
   \<and> bind_err (render_props (ws_onmessage connected_engine (Some (state_update client_snapshot))))
        (\<lambda>p. Inr (SimulationInfo_seconds p, info_realTime p, controls_isPlaying p, controls_timeScale p))
       = Inr (JNum 86400, JStr ''2026-11-03T09:00:00.000Z'', JBool True, JNum 10)
   \<and> render_mission (JObj [(''id'', JStr ''mission-1''), (''status'', JStr ''active''),
                          (''current_position'', JArr [JNum 1, JNum 0, JNum 0])])
       = Inr (Some \<lparr>key = JStr ''mission-1'', position =  [JNum 1, JNum 0, JNum 0], trail = JArr []\<rparr>)"
  using snapshot_read_under_client_names [where message = "state_update client_snapshot"
      and snap = "[(''timestamp'', JNum 86400), (''real_timestamp'', JStr ''2026-11-03T09:00:00.000Z''),
           (''time_scale'', JNum 10), (''is_playing'', JBool True), (''bodies'', JObj []),
           (''missions'',
            JArr [JObj [(''id'', JStr ''mission-1''), (''departure'', JStr ''earth''),
                        (''arrival'', JStr ''mars''), (''status'', JStr ''active''),
                        (''progress'', JNum (1 / 2)), (''delta_v'', JNum 6),
                        (''current_position'', JArr [JNum 1, JNum 0, JNum 0])]])]"
      and m = "[(''id'', JStr ''mission-1''), (''status'', JStr ''active''),
                          (''current_position'', JArr [JNum 1, JNum 0, JNum 0])]"
      and ps = "[JNum 1, JNum 0, JNum 0]" and e = connected_engine]
  by (simp add: state_update_def client_snapshot_def field_def bind_err_def SimulationInfo_seconds_def
      js_or_def elem_def)

text \<open>
  C1, as stated, fails: from a snapshot that carries \<^verbatim>\<open>sim_time\<close>, \<^verbatim>\<open>real_time\<close> and
  \<^verbatim>\<open>current_position_au\<close>, the view formats 0 seconds instead of 86400, has no wall
  time, and draws no spacecraft for the active mission.
\<close>

theorem snapshot_names_counterexample:
  "bind_err (render_props (ws_onmessage connected_engine (Some (state_update spec_snapshot))))
        (\<lambda>p. Inr (SimulationInfo_seconds p, info_realTime p))
       = Inr (JNum 0, JUndefined)
   \<and> bind_err (render_props (ws_onmessage connected_engine (Some (state_update spec_snapshot))))
        (\<lambda>p. render_missions (system_missions p))
       = Inr [None]"
  by (simp add: state_update_def spec_snapshot_def ws_onmessage_def render_props_def
      render_missions_def render_mission_def bind_err_def field_def SimulationInfo_seconds_def js_or_def)

section \<open>Selecting a cell of the porkchop plot\<close>

lemma grid_reads:
  "date_at (porkchop_response dds ads c3 dv tof) ''departure_dates'' i = Inr (elem dds i)"
  "date_at (porkchop_response dds ads c3 dv tof) ''arrival_dates'' j = Inr (elem ads j)"
  by (simp_all add: date_at_def porkchop_response_def bind_err_def field_def)

lemma grid_cells:
  assumes "i < length g" "j < length (g ! i)"
  shows "elem (map JArr g) i = JArr (g ! i)" "get_index (JArr (g ! i)) j = Inr (g ! i ! j)"
  using assms by (simp_all add: elem_def)

lemma grid_cell_reads:
  assumes "i < length c3" "j < length (c3 ! i)" "i < length dv" "j < length (dv ! i)"
    "i < length tof" "j < length (tof ! i)"
  shows "cell_at (porkchop_response dds ads c3 dv tof) ''c3'' i j = Inr (c3 ! i ! j)"
    "cell_at (porkchop_response dds ads c3 dv tof) ''delta_v'' i j = Inr (dv ! i ! j)"
    "cell_at (porkchop_response dds ads c3 dv tof) ''time_of_flight'' i j = Inr (tof ! i ! j)"
  using assms
  by (simp_all add: cell_at_def porkchop_response_def bind_err_def field_def elem_def)

text \<open>
  C4. In a porkchop response whose grids have a row per departure date and a column per
  arrival date, a click on a cell (i, j) whose three entries are neither \<^verbatim>\<open>null\<close> nor
  \<^verbatim>\<open>undefined\<close> selects that cell and passes on exactly the transfer with
  \<^verbatim>\<open>departure_dates[i]\<close>, \<^verbatim>\<open>arrival_dates[j]\<close>, \<^verbatim>\<open>c3[i][j]\<close>, \<^verbatim>\<open>delta_v[i][j]\<close>
  and \<^verbatim>\<open>time_of_flight[i][j]\<close>.
\<close>

theorem select_cell_row_departure_column_arrival:
  assumes "i < length dds" "j < length ads"
    and "i < length c3" "j < length (c3 ! i)" "i < length dv" "j < length (dv ! i)"
    "i < length tof" "j < length (tof ! i)"
    and "\<not> loose_eq_null (c3 ! i ! j)" "\<not> loose_eq_null (dv ! i ! j)"
    "\<not> loose_eq_null (tof ! i ! j)"
  shows "handleCellClick (porkchop_response dds ads c3 dv tof) p i j
           = Inr (p\<lparr>selectedPoint := Some (i, j),
                     selected := selected p @
                       [JObj [(''departure_date'', dds ! i), (''arrival_date'', ads ! j),
                              (''c3'', c3 ! i ! j), (''delta_v'', dv ! i ! j),
                              (''time_of_flight'', tof ! i ! j)]]\<rparr>)"
  unfolding handleCellClick_def grid_reads grid_cell_reads [OF assms(3-8)]
  using assms(1,2,9-11) by (simp add: bind_err_def elem_def)


text \<open>
  A cell with an entry that is \<^verbatim>\<open>null\<close> or \<^verbatim>\<open>undefined\<close> is a hole: the click leaves
  the plot as it was, or throws before it changes anything.
\<close>

lemma null_cells_are_holes:
  assumes "cell_at data ''c3'' i j = Inr c3" "cell_at data ''delta_v'' i j = Inr dv"
    "cell_at data ''time_of_flight'' i j = Inr tof"
    and "loose_eq_null c3 \<or> loose_eq_null dv \<or> loose_eq_null tof"
  shows "handleCellClick data p i j = Inr p \<or> handleCellClick data p i j = Inl TypeError"
proof -
  have err: "e = TypeError" if "date_at data k n = Inl e" for e k n
    using that
    by (cases "get_prop data k"; cases data; cases "projr (get_prop data k)")
      (auto simp: date_at_def bind_err_def split: if_splits)
  show ?thesis
    using assms err
    by (cases "date_at data ''departure_dates'' i"; cases "date_at data ''arrival_dates'' j")
      (auto simp: handleCellClick_def bind_err_def)
qed

lemma field_json: "list_all is_json (map snd kvs) \<Longrightarrow> field kvs k = JUndefined \<or> is_json (field kvs k)"
proof -
  assume a: "list_all is_json (map snd kvs)"
  show ?thesis
  proof (cases "map_of kvs k")
    case None
    then show ?thesis by (simp add: field_def)
  next
    case (Some v)
    then have "(k, v) \<in> set kvs"
      by (rule map_of_SomeD)
    then have "v \<in> set (map snd kvs)"
      by force
    with a have "is_json v"
      by (auto simp: list_all_iff)
    with Some show ?thesis
      by (simp add: field_def)
  qed
qed

lemma get_prop_json:
  assumes "is_json v" "get_prop v k = Inr w"
  shows "w = JUndefined \<or> is_json w"
  using assms field_json by (cases v) (auto split: if_splits)

lemma get_index_json:
  assumes "is_json v" "get_index v i = Inr w"
  shows "w = JUndefined \<or> is_json w"
  using assms field_json by (cases v) (auto simp: elem_def list_all_length split: if_splits)

lemma cell_at_json:
  assumes "is_json data" "cell_at data k i j = Inr v"
  shows "v \<noteq> JNaN"
proof -
  from assms(2) obtain rows row where r: "get_prop data k = Inr rows" "get_index rows i = Inr row"
    "get_index row j = Inr v"
    by (auto simp: cell_at_def bind_err_def split: sum.splits)
  from get_prop_json [OF assms(1) r(1)] r(2) have "is_json rows"
    by auto
  from get_index_json [OF this r(2)] r(3) have "is_json row"
    by auto
  from get_index_json [OF this r(3)] show ?thesis
    by auto
qed

text \<open>
  C3. In a grid parsed from the response, where the three entries of a cell and its two
  dates can be read, a cell with an entry that is \<^verbatim>\<open>null\<close> or missing (an entry
  that is \<^verbatim>\<open>NaN\<close> cannot occur in parsed JSON) is a hole: the click returns with the
  selection and the calls of the selection callback as they were. A cell whose three entries are all
  set becomes the selected point, and the callback gets its transfer.
\<close>

theorem failed_cells_are_holes:
  assumes "is_json data"
    and "date_at data ''departure_dates'' i = Inr dep" "date_at data ''arrival_dates'' j = Inr arr"
    and "cell_at data ''c3'' i j = Inr a" "cell_at data ''delta_v'' i j = Inr b"
    "cell_at data ''time_of_flight'' i j = Inr c"
  shows "(loose_eq_null a \<or> a = JNaN \<or> loose_eq_null b \<or> b = JNaN
          \<or> loose_eq_null c \<or> c = JNaN \<longrightarrow>
            handleCellClick data p i j = Inr p)
       \<and> (\<not> loose_eq_null a \<and> \<not> loose_eq_null b \<and> \<not> loose_eq_null c \<longrightarrow>
            handleCellClick data p i j
              = Inr (p\<lparr>selectedPoint := Some (i, j),
                        selected := selected p @
                          [JObj [(''departure_date'', dep), (''arrival_date'', arr),
                                 (''c3'', a), (''delta_v'', b), (''time_of_flight'', c)]]\<rparr>))"
proof -
  have "a \<noteq> JNaN" "b \<noteq> JNaN" "c \<noteq> JNaN"
    using assms(1,4-6) cell_at_json by blast+
  then show ?thesis
    unfolding handleCellClick_def assms(2-6) by (auto simp: bind_err_def)
qed

lemma holed_grid_json: "is_json holed_grid"
  by (simp add: holed_grid_def porkchop_response_def)

theorem failed_cells_are_holes_witness:
  "is_json holed_grid
   \<and> cell_at holed_grid ''c3'' 1 2 = Inr JNull
   \<and> handleCellClick holed_grid empty_plot 1 2 = Inr empty_plot
   \<and> cell_at holed_grid ''c3'' 0 1 = Inr (JNum 12)
   \<and> handleCellClick holed_grid empty_plot 0 1
       = Inr \<lparr>selectedPoint = Some (0, 1),
              selected = [JObj [(''departure_date'', JStr ''2026-04-01T00:00:00''),
                                (''arrival_date'', JStr ''2026-10-02T00:00:00''),
                                (''c3'', JNum 12), (''delta_v'', JNum 6),
                                (''time_of_flight'', JNum 184)]]\<rparr>"
proof -
  have r1: "date_at holed_grid ''departure_dates'' 1 = Inr (JStr ''2026-04-02T00:00:00'')"
    "date_at holed_grid ''arrival_dates'' 2 = Inr (JStr ''2026-10-03T00:00:00'')"
    "cell_at holed_grid ''c3'' 1 2 = Inr JNull" "cell_at holed_grid ''delta_v'' 1 2 = Inr JNull"
    "cell_at holed_grid ''time_of_flight'' 1 2 = Inr JNull"
    by (simp_all add: holed_grid_def porkchop_response_def date_at_def cell_at_def bind_err_def
        field_def elem_def)
  have r2: "date_at holed_grid ''departure_dates'' 0 = Inr (JStr ''2026-04-01T00:00:00'')"
    "date_at holed_grid ''arrival_dates'' 1 = Inr (JStr ''2026-10-02T00:00:00'')"
    "cell_at holed_grid ''c3'' 0 1 = Inr (JNum 12)" "cell_at holed_grid ''delta_v'' 0 1 = Inr (JNum 6)"
    "cell_at holed_grid ''time_of_flight'' 0 1 = Inr (JNum 184)"
    by (simp_all add: holed_grid_def porkchop_response_def date_at_def cell_at_def bind_err_def
        field_def elem_def)
  show ?thesis
    using failed_cells_are_holes [OF holed_grid_json r1, of empty_plot]
      failed_cells_are_holes [OF holed_grid_json r2, of empty_plot]
      holed_grid_json r1(3) r2(3)
    by (simp add: empty_plot_def)
qed

text \<open>
  The restriction to parsed JSON matters: on an object that holds \<^verbatim>\<open>NaN\<close>, which
  \<^verbatim>\<open>response.json()\<close> never returns, the handler's test \<^verbatim>\<open>== null\<close> lets the cell
  through.
\<close>

lemma nan_cell_outside_json:
  "\<not> is_json nan_grid
   \<and> handleCellClick nan_grid empty_plot 0 0
     = Inr \<lparr>selectedPoint = Some (0, 0),
            selected = [JObj [(''departure_date'', JStr ''2026-04-01T00:00:00''),
                              (''arrival_date'', JStr ''2026-10-01T00:00:00''),
                              (''c3'', JNaN), (''delta_v'', JNum 6),
                              (''time_of_flight'', JNum 183)]]\<rparr>"
  by (simp add: nan_grid_def empty_plot_def handleCellClick_def date_at_def cell_at_def
      porkchop_response_def bind_err_def field_def elem_def)

theorem select_cell_witness:
  "handleCellClick
      (porkchop_response [JStr ''2026-04-01T00:00:00'', JStr ''2026-04-02T00:00:00'']
         [JStr ''2026-10-01T00:00:00'', JStr ''2026-10-02T00:00:00'', JStr ''2026-10-03T00:00:00'']
         [[JNum 11, JNum 12, JNum 13], [JNum 21, JNum 22, JNum 23]]
         [[JNum 5, JNum 6, JNum 7], [JNum 8, JNum 9, JNull]]
         [[JNum 183, JNum 184, JNum 185], [JNum 182, JNum 183, JNum 184]])
      empty_plot 1 0
     = Inr \<lparr>selectedPoint = Some (1, 0),
            selected = [JObj [(''departure_date'', JStr ''2026-04-02T00:00:00''),
                              (''arrival_date'', JStr ''2026-10-01T00:00:00''),
                              (''c3'', JNum 21), (''delta_v'', JNum 8),
                              (''time_of_flight'', JNum 182)]]\<rparr>"
  using select_cell_row_departure_column_arrival
    [where dds = "[JStr ''2026-04-01T00:00:00'', JStr ''2026-04-02T00:00:00'']"
      and ads = "[JStr ''2026-10-01T00:00:00'', JStr ''2026-10-02T00:00:00'', JStr ''2026-10-03T00:00:00'']"
      and ?c3.0 = "[[JNum 11, JNum 12, JNum 13], [JNum 21, JNum 22, JNum 23]]"
      and dv = "[[JNum 5, JNum 6, JNum 7], [JNum 8, JNum 9, JNull]]"
      and tof = "[[JNum 183, JNum 184, JNum 185], [JNum 182, JNum 183, JNum 184]]"
      and i = 1 and j = 0 and p = empty_plot]
  by (simp add: empty_plot_def)

section \<open>The requests of the planner\<close>

lemma iso_time_midnight: "iso_time ''00:00:00''"
  by (simp add: iso_time_def two_digits_def is_digit_def digits_value_def)

lemma iso_date_midnight:
  assumes "iso_date s"
  shows "iso_date_time (s @ ''T00:00:00'')"
proof -
  from assms have len: "length s = 10"
    by (simp add: iso_date_def)
  then have "take 10 (s @ ''T00:00:00'') = s" "(s @ ''T00:00:00'') ! 10 = CHR ''T''"
    "take 8 (drop 11 (s @ ''T00:00:00'')) = ''00:00:00''" "drop 19 (s @ ''T00:00:00'') = []"
    by (simp_all add: nth_append)
  then show ?thesis
    unfolding iso_date_time_def using assms len iso_time_midnight by simp
qed

text \<open>
  C5, as amended. The porkchop request has exactly the fields \<^verbatim>\<open>departure\<close>,
  \<^verbatim>\<open>arrival\<close>, \<^verbatim>\<open>departure_start\<close>, \<^verbatim>\<open>departure_end\<close>, \<^verbatim>\<open>arrival_start\<close> and
  \<^verbatim>\<open>arrival_end\<close>; each date field is the value of its date input followed by
  \<^verbatim>\<open>T00:00:00\<close>, which is an ISO 8601 date-time whenever the input holds a date. The
  transfer request for a point that carries both dates as strings has exactly the fields
  \<^verbatim>\<open>departure\<close>, \<^verbatim>\<open>arrival\<close>, \<^verbatim>\<open>departure_date\<close> and \<^verbatim>\<open>arrival_date\<close>.
\<close>

theorem planner_requests:
  "last_body (calculatePorkchop p)
     = JObj [(''departure'', JStr (departure p)), (''arrival'', JStr (arrival p)),
             (''departure_start'', JStr (departureStart p @ ''T00:00:00'')),
             (''departure_end'', JStr (departureEnd p @ ''T00:00:00'')),
             (''arrival_start'', JStr (arrivalStart p @ ''T00:00:00'')),
             (''arrival_end'', JStr (arrivalEnd p @ ''T00:00:00''))]
   \<and> (iso_date (departureStart p) \<longrightarrow> iso_date_time (departureStart p @ ''T00:00:00''))
   \<and> (iso_date (departureEnd p) \<longrightarrow> iso_date_time (departureEnd p @ ''T00:00:00''))
   \<and> (iso_date (arrivalStart p) \<longrightarrow> iso_date_time (arrivalStart p @ ''T00:00:00''))
   \<and> (iso_date (arrivalEnd p) \<longrightarrow> iso_date_time (arrivalEnd p @ ''T00:00:00''))
   \<and> (get_prop point ''departure_date'' = Inr (JStr dd)
        \<and> get_prop point ''arrival_date'' = Inr (JStr ad) \<longrightarrow>
      last_body (calculateTransfer p point)
        = JObj [(''departure'', JStr (departure p)), (''arrival'', JStr (arrival p)),
                (''departure_date'', JStr dd), (''arrival_date'', JStr ad)])"
  by (auto simp: iso_date_midnight last_body_def calculatePorkchop_def calculateTransfer_def
      bind_err_def)

theorem planner_requests_witness:
  "iso_date ''2026-04-01'' \<and> iso_date_time ''2026-04-01T00:00:00''
   \<and> last_body (calculatePorkchop (planner_with ''2026-04-01'' ''2026-12-01'' ''2026-10-01'' ''2028-01-01''))
     = JObj [(''departure'', JStr ''earth''), (''arrival'', JStr ''mars''),
             (''departure_start'', JStr ''2026-04-01T00:00:00''),
             (''departure_end'', JStr ''2026-12-01T00:00:00''),
             (''arrival_start'', JStr ''2026-10-01T00:00:00''),
             (''arrival_end'', JStr ''2028-01-01T00:00:00'')]
   \<and> last_body (calculateTransfer (planner_with ''2026-04-01'' ''2026-12-01'' ''2026-10-01'' ''2028-01-01'')
        (JObj [(''departure_date'', JStr ''2026-04-02T00:00:00''),
               (''arrival_date'', JStr ''2026-10-01T00:00:00''),
               (''c3'', JNum 21), (''delta_v'', JNum 8), (''time_of_flight'', JNum 182)]))
     = JObj [(''departure'', JStr ''earth''), (''arrival'', JStr ''mars''),
             (''departure_date'', JStr ''2026-04-02T00:00:00''),
             (''arrival_date'', JStr ''2026-10-01T00:00:00'')]"
proof -
  have d: "iso_date ''2026-04-01''"
    by (simp add: iso_date_def two_digits_def is_digit_def digits_value_def)
  show ?thesis
    using d planner_requests
      [where p = "planner_with ''2026-04-01'' ''2026-12-01'' ''2026-10-01'' ''2028-01-01''"
        and point = "JObj [(''departure_date'', JStr ''2026-04-02T00:00:00''),
               (''arrival_date'', JStr ''2026-10-01T00:00:00''),
               (''c3'', JNum 21), (''delta_v'', JNum 8), (''time_of_flight'', JNum 182)]"
        and dd = "''2026-04-02T00:00:00''" and ad = "''2026-10-01T00:00:00''"]
    by (simp add: planner_with_def field_def)
qed

text \<open>
  C5, as stated, fails: with the departure start input cleared, the request carries
  \<^verbatim>\<open>T00:00:00\<close> as \<^verbatim>\<open>departure_start\<close>, which is no ISO 8601 date-time.
\<close>

theorem planner_dates_counterexample:
  "last_body (calculatePorkchop (planner_with [] ''2026-12-01'' ''2026-10-01'' ''2028-01-01''))
     = JObj [(''departure'', JStr ''earth''), (''arrival'', JStr ''mars''),
             (''departure_start'', JStr ''T00:00:00''),
             (''departure_end'', JStr ''2026-12-01T00:00:00''),
             (''arrival_start'', JStr ''2026-10-01T00:00:00''),
             (''arrival_end'', JStr ''2028-01-01T00:00:00'')]
   \<and> \<not> iso_date_time ''T00:00:00''"
  by (simp add: last_body_def calculatePorkchop_def planner_with_def iso_date_time_def)

text \<open>
  C6, as amended. A launch posts one request to the launch endpoint whose body is an
  object with the single field \<^verbatim>\<open>transfer_data\<close>, and the transfer object is its value.
\<close>

theorem launch_nests_transfer:
  assumes "to_boolean transfer"
  shows "posted (planner_handleLaunchMission p transfer)
           = posted p @ [(''http://localhost:8000/api/mission/launch'',
                          JObj [(''transfer_data'', JSON_stringify transfer)])]
       \<and> keys (last_body (planner_handleLaunchMission p transfer)) = [''transfer_data'']"
proof -
  from assms have "transfer \<noteq> JUndefined"
    by auto
  then show ?thesis
    by (simp add: planner_handleLaunchMission_def last_body_def keys_def)
qed

theorem launch_nests_transfer_witness:
  "to_boolean example_transfer
   \<and> posted (planner_handleLaunchMission (planner_with [] [] [] []) example_transfer)
       = [(''http://localhost:8000/api/mission/launch'',
           JObj [(''transfer_data'', example_transfer)])]"
  using launch_nests_transfer [of example_transfer "planner_with [] [] [] []"]
  by (simp add: example_transfer_def planner_with_def)

text \<open>
  C6, as stated, fails: the body sent for a transfer response is neither a transfer
  response nor a transfer request, since the transfer is nested under
  \<^verbatim>\<open>transfer_data\<close>.
\<close>

theorem launch_body_counterexample:
  "last_body (planner_handleLaunchMission (planner_with [] [] [] []) example_transfer)
     = JObj [(''transfer_data'', example_transfer)]
   \<and> spec_TransferResponse example_transfer
   \<and> \<not> spec_TransferResponse (JObj [(''transfer_data'', example_transfer)])
   \<and> \<not> spec_TransferRequest (JObj [(''transfer_data'', example_transfer)])"
  by (simp add: planner_handleLaunchMission_def last_body_def planner_with_def
      example_transfer_def spec_TransferResponse_def spec_TransferRequest_def has_fields_def
      field_def)

section \<open>The simulation time on display\<close>

subsection \<open>Years\<close>

lemma DaysInYear_le: "DaysInYear y \<le> 366"
  by (simp add: DaysInYear_def)

lemma DayFromYear_mono_nat: "DayFromYear y \<le> DayFromYear (y + int n)"
proof (induction n)
  case 0
  show ?case by simp
next
  case (Suc n)
  have "DayFromYear (y + int (Suc n)) = DayFromYear (y + int n) + DaysInYear (y + int n)"
    using DayFromYear_step [of "y + int n"] by (simp add: ac_simps)
  with Suc DaysInYear_ge [of "y + int n"] show ?case
    by linarith
qed

lemma DayFromYear_mono: "y \<le> z \<Longrightarrow> DayFromYear y \<le> DayFromYear z"
  using DayFromYear_mono_nat [of y "nat (z - y)"] by simp

lemma DayFromYear_upper_nat: "DayFromYear (1970 + int n) \<le> 366 * int n"
proof (induction n)
  case 0
  show ?case by (simp add: DayFromYear_def)
next
  case (Suc n)
  have "DayFromYear (1970 + int (Suc n)) = DayFromYear (1970 + int n) + DaysInYear (1970 + int n)"
    using DayFromYear_step [of "1970 + int n"] by (simp add: ac_simps)
  with Suc DaysInYear_le [of "1970 + int n"] show ?case
    by simp
qed

lemma DayFromYear_lower_nat: "DayFromYear (1970 - int n) \<le> - 365 * int n"
proof (induction n)
  case 0
  show ?case by (simp add: DayFromYear_def)
next
  case (Suc n)
  have "DayFromYear (1970 - int n) = DayFromYear (1970 - int (Suc n)) + DaysInYear (1970 - int (Suc n))"
    using DayFromYear_step [of "1970 - int (Suc n)"] by (simp add: algebra_simps)
  with Suc DaysInYear_ge [of "1970 - int (Suc n)"] show ?case
    by simp
qed

lemma year_search_start:
  "DayFromYear (1970 + (if 0 \<le> d then d div 366 else d div 365)) \<le> d"
proof (cases "0 \<le> d")
  case True
  then have "0 \<le> d div 366"
    by simp
  then have "DayFromYear (1970 + d div 366) \<le> 366 * (d div 366)"
    using DayFromYear_upper_nat [of "nat (d div 366)"] by simp
  also have "\<dots> \<le> d"
    using mult_div_mod_eq [of 366 d] pos_mod_sign [of 366 d] by linarith
  finally show ?thesis
    using True by simp
next
  case False
  then have neg: "d div 365 < 0"
    by (simp add: div_neg_pos_less0)
  then have "DayFromYear (1970 + d div 365) \<le> 365 * (d div 365)"
    using DayFromYear_lower_nat [of "nat (- (d div 365))"] by simp
  also have "\<dots> \<le> d"
    using mult_div_mod_eq [of 365 d] pos_mod_sign [of 365 d] by linarith
  finally show ?thesis
    using False by simp
qed

lemma year_search_bounds:
  "DayFromYear y \<le> d \<Longrightarrow>
     DayFromYear (year_search d y) \<le> d \<and> d < DayFromYear (year_search d y + 1)"
proof (induction d y rule: year_search.induct)
  case (1 d y)
  show ?case
  proof (cases "DayFromYear (y + 1) \<le> d")
    case True
    with "1.IH" have "DayFromYear (year_search d (y + 1)) \<le> d
        \<and> d < DayFromYear (year_search d (y + 1) + 1)"
      by simp
    with True show ?thesis
      by (subst (1 2) year_search.simps) simp
  next
    case False
    with "1.prems" show ?thesis
      by (subst (1 2) year_search.simps) simp
  qed
qed

lemma YearFromDay_bounds:
  "DayFromYear (YearFromDay d) \<le> d" "d < DayFromYear (YearFromDay d + 1)"
  using year_search_bounds [OF year_search_start, of d] by (simp_all add: YearFromDay_def)

lemma YearFromDay_unique:
  assumes "DayFromYear y \<le> d" "d < DayFromYear (y + 1)"
  shows "YearFromDay d = y"
proof (rule ccontr)
  assume ne: "YearFromDay d \<noteq> y"
  show False
  proof (cases "YearFromDay d < y")
    case True
    then have "DayFromYear (YearFromDay d + 1) \<le> DayFromYear y"
      by (intro DayFromYear_mono) simp
    with YearFromDay_bounds(2) [of d] assms(1) show False
      by simp
  next
    case False
    with ne have "DayFromYear (y + 1) \<le> DayFromYear (YearFromDay d)"
      by (intro DayFromYear_mono) simp
    with YearFromDay_bounds(1) [of d] assms(2) show False
      by simp
  qed
qed


subsection \<open>Time of day\<close>

lemma time_fields:
  "HourFromTime t = (t div 1000) div 60 div 60 mod 24"
  "MinFromTime t = (t div 1000) div 60 mod 60"
  "SecFromTime t = (t div 1000) mod 60"
  "Day t = (t div 1000) div 60 div 60 div 24"
proof -
  have "t div 3600000 = t div (1000 * 60 * 60)" "t div 60000 = t div (1000 * 60)"
    "t div 86400000 = t div (1000 * 60 * 60 * 24)"
    by simp_all
  then show "HourFromTime t = (t div 1000) div 60 div 60 mod 24"
    "MinFromTime t = (t div 1000) div 60 mod 60"
    "SecFromTime t = (t div 1000) mod 60"
    "Day t = (t div 1000) div 60 div 60 div 24"
    unfolding HourFromTime_def MinFromTime_def SecFromTime_def Day_def msPerHour_def
      msPerMinute_def msPerSecond_def msPerDay_def
    by (simp_all only: zdiv_zmult2_eq [symmetric] mult.assoc)
qed

lemma seconds_of_day:
  "Day t * 86400 + HourFromTime t * 3600 + MinFromTime t * 60 + SecFromTime t = t div 1000"
proof -
  define s where "s = t div 1000"
  define m where "m = s div 60"
  define h where "h = m div 60"
  have "s = 60 * m + s mod 60" "m = 60 * h + m mod 60" "h = 24 * (h div 24) + h mod 24"
    by (simp_all add: m_def h_def)
  then have "h div 24 * 86400 + h mod 24 * 3600 + m mod 60 * 60 + s mod 60 = s"
    by linarith
  then show ?thesis
    unfolding time_fields s_def m_def h_def .
qed

lemma time_of_day:
  "MakeDate (Day t) (MakeTime (HourFromTime t) (MinFromTime t) sec (msFromTime t))
     = t + (js_trunc sec - SecFromTime t) * 1000"
proof -
  have "t = 1000 * (t div 1000) + t mod 1000"
    by simp
  then have "t = 1000 * (Day t * 86400 + HourFromTime t * 3600 + MinFromTime t * 60
      + SecFromTime t) + msFromTime t"
    unfolding seconds_of_day msFromTime_def msPerSecond_def .
  then show ?thesis
    unfolding MakeDate_def MakeTime_def msPerDay_def msPerHour_def msPerMinute_def
      msPerSecond_def
    by (simp add: algebra_simps)
qed


subsection \<open>Setting the seconds in a host at a fixed offset\<close>

lemma Date_UTC_epoch: "Date_UTC 2024 0 1 = Some 1704067200000"
  by (simp add: Date_UTC_def TimeClip_def MakeDate_def MakeDay_def MakeTime_def DayFromYear_def
      DaysInYear_def month_start_def msPerDay_def msPerHour_def msPerMinute_def msPerSecond_def
      js_trunc_def)



subsection \<open>Printing and reading digits\<close>









subsection \<open>Months and days\<close>








subsection \<open>The string on display\<close>









subsection \<open>Hosts at a fixed offset\<close>





lemma replicate_zeros: "replicate 1 x = [x]" "replicate 2 x = [x, x]"
  by (simp_all add: numeral_2_eq_2)

lemma YearFromTime_eval:
  assumes "DayFromYear y \<le> Day t" "Day t < DayFromYear (y + 1)"
  shows "YearFromTime t = y"
  unfolding YearFromTime_def using assms by (rule YearFromDay_unique)






text \<open>In the host with daylight saving time, 180 days from the epoch show an hour early.\<close>

lemma display_in_dst_host:
  "formatSimTime dst_host 15552000 = Inr ''2024-06-28 23:00:00''
   \<and> calendar_instant ''2024-06-28 23:00:00'' = Some (epoch_seconds + 15552000 - 3600)"
proof -
  have s: "setSeconds dst_host 1704067200000 (of_int (getSeconds dst_host 1704067200000) + 15552000)
      = Some 1719615600000"
    unfolding setSeconds_def getSeconds_def Let_def time_of_day
    by (simp add: LocalTime_def UTC_def dst_host_def SecFromTime_def msPerSecond_def js_trunc_def
        TimeClip_def)
  have y: "YearFromTime 1719615600000 = 2024"
    by (rule YearFromTime_eval) (simp_all add: Day_def msPerDay_def DayFromYear_def)
  have d: "DayWithinYear 1719615600000 = 179" "InLeapYear 1719615600000 = 1"
    by (simp_all add: DayWithinYear_def InLeapYear_def y Day_def msPerDay_def DayFromYear_def
        DaysInYear_def)
  have iso: "toISOString (Some 1719615600000) = Inr ''2024-06-28T23:00:00.000Z''"
    by (simp add: toISOString_def y MonthFromTime_def DateFromTime_def d month_of_def
        month_start_def HourFromTime_def MinFromTime_def SecFromTime_def msFromTime_def
        msPerHour_def msPerMinute_def msPerSecond_def year_string_def pad_def
        show_nat_numeral show_nat_small digit_char_def replicate_zeros)
  have "formatSimTime dst_host 15552000 = Inr ''2024-06-28 23:00:00''"
    by (simp add: formatSimTime_def Date_UTC_epoch s iso bind_err_def slice_off_def)
  moreover have "calendar_instant ''2024-06-28 23:00:00'' = Some (epoch_seconds + 15552000 - 3600)"
    by (simp add: calendar_instant_def year_of_def is_digit_def two_digits_def iso_time_def
        digits_value_def civil_seconds_def days_before_year_def month_lengths_def leap_year_def
        epoch_seconds_def)
  ultimately show ?thesis
    by simp
qed

end
